theory Spec2Isabelle
  imports Main
begin

section \<open>The shopping cart of apps/store\<close>

text \<open>
  A shallow embedding of \<^verbatim>\<open>server/apps/store/models.py\<close> and of the cart actions of
  \<^verbatim>\<open>server/apps/store/views.py\<close>. The database is an explicit state that every
  operation takes and returns; an exception is the left summand of the result, and an
  operation that raises leaves the state it was given.

  Conventions of the model:
  \<^item> a UUID is a natural number;
  \<^item> a \<^verbatim>\<open>DecimalField(max_digits=10, decimal_places=2)\<close> amount is the integer number
    of hundredths, with exact arithmetic; the upper limits of the storage backend on
    integers and decimals are not modelled;
  \<^item> the two timestamps of a row are read by no cart operation and are left out; the
    cart-item table is the list of its rows in creation order (the \<^verbatim>\<open>ordering\<close> of the
    model);
  \<^item> the operations of \<^verbatim>\<open>ShoppingCart\<close> find a row by the triple of
    \<^verbatim>\<open>unique_together\<close> and save only instances they have just read or built, and
    their table \<open>db\<close> leaves the primary key out; \<^verbatim>\<open>ShoppingCartItem.save\<close> on any
    instance in memory is modelled on a table that keeps the primary key of each row
    (\<open>store\<close>), and the two are shown to agree on such instances.
\<close>

subsection \<open>Data model\<close>

type_synonym uuid = nat
type_synonym decimal = int

text \<open>The three product classes, which are also the content types a cart item may carry.\<close>

datatype model_class = Book | MusicAlbum | SoftwareLicense

text \<open>
  What the cart reads of a product instance: its class, its \<^verbatim>\<open>id\<close> and the two
  amounts that \<^verbatim>\<open>Book\<close>, \<^verbatim>\<open>MusicAlbum\<close> and \<^verbatim>\<open>SoftwareLicense\<close> all declare.
\<close>

record product =
  product_class :: model_class
  product_id :: uuid
  price_in_euros :: decimal
  weight_in_kilograms :: decimal

text \<open>
  \<^verbatim>\<open>ShoppingCartItem\<close>. \<^verbatim>\<open>cart\<close> is the id of the owning cart. \<^verbatim>\<open>quantity\<close> is a Python
  integer in memory; the column is a \<^verbatim>\<open>PositiveIntegerField\<close>, whose check (enforced on
  every write, see \<open>db_insert\<close> and \<open>db_update\<close>) admits zero and refuses negative
  values.
\<close>

record shopping_cart_item =
  cart :: uuid
  quantity :: int
  content_type :: model_class
  object_id :: uuid
  product_price :: decimal
  product_weight :: decimal

text \<open>The database: the three product tables (as one map) and the cart-item table.\<close>

record db =
  products :: "model_class \<times> uuid \<Rightarrow> product option"
  items :: "shopping_cart_item list"

datatype error = DoesNotExist | MultipleObjectsReturned | IntegrityError

subsection \<open>Queries on the cart-item table\<close>

definition line_key :: "shopping_cart_item \<Rightarrow> uuid \<times> model_class \<times> uuid" where
  "line_key it = (cart it, content_type it, object_id it)"

text \<open>\<^verbatim>\<open>cart.items\<close>: the reverse side of the foreign key.\<close>

definition cart_items :: "db \<Rightarrow> uuid \<Rightarrow> shopping_cart_item list" where
  "cart_items d c = filter (\<lambda>it. cart it = c) (items d)"

text \<open>
  \<^verbatim>\<open>ShoppingCartItem.objects.get(cart=..., content_type=..., object_id=...)\<close>: the one
  matching row, \<^verbatim>\<open>DoesNotExist\<close> when there is none and \<^verbatim>\<open>MultipleObjectsReturned\<close> when
  there are several.
\<close>

definition objects_get :: "db \<Rightarrow> uuid \<Rightarrow> model_class \<Rightarrow> uuid \<Rightarrow> error + shopping_cart_item" where
  "objects_get d c ct oid =
     (case filter (\<lambda>it. line_key it = (c, ct, oid)) (items d) of
        [] \<Rightarrow> Inl DoesNotExist
      | [it] \<Rightarrow> Inr it
      | _ \<Rightarrow> Inl MultipleObjectsReturned)"

text \<open>
  The generic foreign key \<^verbatim>\<open>ShoppingCartItem.product\<close> as an instance reads it for the
  first time: the row of the product table named by \<^verbatim>\<open>content_type\<close> whose id is
  \<^verbatim>\<open>object_id\<close>, or \<^verbatim>\<open>None\<close> when there is no such row. (An instance that has read its
  product keeps the object; see \<open>read_product\<close> below.)
\<close>

definition item_product :: "db \<Rightarrow> shopping_cart_item \<Rightarrow> product option" where
  "item_product d it = products d (content_type it, object_id it)"

subsection \<open>Writing a cart item\<close>

text \<open>
  The INSERT of \<^verbatim>\<open>Model.save\<close>: refused with \<^verbatim>\<open>IntegrityError\<close> by the check of the
  quantity column and by \<^verbatim>\<open>unique_together\<close>.
\<close>

definition db_insert :: "db \<Rightarrow> shopping_cart_item \<Rightarrow> error + db" where
  "db_insert d it =
     (if quantity it < 0 then Inl IntegrityError
      else if line_key it \<in> set (map line_key (items d)) then Inl IntegrityError
      else Inr (d\<lparr>items := items d @ [it]\<rparr>))"

text \<open>
  The UPDATE of \<^verbatim>\<open>Model.save\<close> for an instance that was just read from the table, so
  that the row with its primary key is the row with its triple; when the row is gone,
  \<^verbatim>\<open>Model.save\<close> falls back to an INSERT. (\<open>Model_save\<close> below finds the row by the
  primary key.)
\<close>

definition db_update :: "db \<Rightarrow> shopping_cart_item \<Rightarrow> error + db" where
  "db_update d it =
     (if quantity it < 0 then Inl IntegrityError
      else if line_key it \<in> set (map line_key (items d))
      then Inr (d\<lparr>items := map (\<lambda>r. if line_key r = line_key it then it else r) (items d)\<rparr>)
      else Inr (d\<lparr>items := items d @ [it]\<rparr>))"

text \<open>\<^verbatim>\<open>cart_item.delete()\<close>.\<close>

definition db_delete :: "db \<Rightarrow> shopping_cart_item \<Rightarrow> db" where
  "db_delete d it = d\<lparr>items := filter (\<lambda>r. line_key r \<noteq> line_key it) (items d)\<rparr>"

text \<open>
  The first statement of \<^verbatim>\<open>ShoppingCartItem.save\<close>: when the generic foreign key
  resolves (\<^verbatim>\<open>if self.product:\<close>), both cached amounts are overwritten from the
  product; otherwise the instance is left as it is.
\<close>

definition refresh_cached :: "db \<Rightarrow> shopping_cart_item \<Rightarrow> shopping_cart_item" where
  "refresh_cached d it =
     (case item_product d it of
        Some p \<Rightarrow> it\<lparr>product_price := price_in_euros p,
                     product_weight := weight_in_kilograms p\<rparr>
      | None \<Rightarrow> it)"

text \<open>
  \<^verbatim>\<open>ShoppingCartItem.save\<close> on an instance that was just read from the table or just
  built, which is how \<open>add_product\<close> and \<open>remove_product\<close> call it: the cached amounts
  are refreshed, then \<^verbatim>\<open>super().save\<close> writes the row. \<open>adding\<close> tells a new instance
  (INSERT) from one read from the table (UPDATE). The instance as saved is returned with
  the new state. The method on any instance is \<open>ShoppingCartItem_save\<close> below.
\<close>

definition save :: "db \<Rightarrow> bool \<Rightarrow> shopping_cart_item \<Rightarrow> error + (shopping_cart_item \<times> db)" where
  "save d adding it =
     (let it' = refresh_cached d it
      in case (if adding then db_insert d it' else db_update d it') of
           Inl e \<Rightarrow> Inl e
         | Inr d' \<Rightarrow> Inr (it', d'))"

text \<open>
  \<^verbatim>\<open>objects.get_or_create(cart=..., content_type=..., object_id=..., defaults=...)\<close>: the
  row when \<^verbatim>\<open>get\<close> finds it; otherwise a new instance built from the lookup and the
  defaults and saved. When the creation raises \<^verbatim>\<open>IntegrityError\<close>, \<^verbatim>\<open>get\<close> is tried once
  more and the error is raised again if the row is still missing.
\<close>

definition get_or_create ::
  "db \<Rightarrow> uuid \<Rightarrow> model_class \<Rightarrow> uuid \<Rightarrow> int \<Rightarrow> decimal \<Rightarrow> decimal
     \<Rightarrow> error + ((shopping_cart_item \<times> bool) \<times> db)" where
  "get_or_create d c ct oid q price weight =
     (case objects_get d c ct oid of
        Inr it \<Rightarrow> Inr ((it, False), d)
      | Inl DoesNotExist \<Rightarrow>
          (case save d True \<lparr>cart = c, quantity = q, content_type = ct, object_id = oid,
                             product_price = price, product_weight = weight\<rparr> of
             Inr (it, d') \<Rightarrow> Inr ((it, True), d')
           | Inl IntegrityError \<Rightarrow>
               (case objects_get d c ct oid of
                  Inr it \<Rightarrow> Inr ((it, False), d)
                | Inl DoesNotExist \<Rightarrow> Inl IntegrityError
                | Inl e \<Rightarrow> Inl e)
           | Inl e \<Rightarrow> Inl e)
      | Inl e \<Rightarrow> Inl e)"

subsection \<open>The operations of \<^verbatim>\<open>ShoppingCart\<close>\<close>

text \<open>\<^verbatim>\<open>ShoppingCart.add_product(product, quantity)\<close>, for the cart with id \<open>c\<close>.\<close>

definition add_product ::
  "db \<Rightarrow> uuid \<Rightarrow> product \<Rightarrow> int \<Rightarrow> error + (shopping_cart_item \<times> db)" where
  "add_product d c p q =
     (case get_or_create d c (product_class p) (product_id p) q
             (price_in_euros p) (weight_in_kilograms p) of
        Inl e \<Rightarrow> Inl e
      | Inr ((cart_item, created), d') \<Rightarrow>
          if \<not> created
          then save d' False (cart_item\<lparr>quantity := quantity cart_item + q\<rparr>)
          else Inr (cart_item, d'))"

text \<open>
  \<^verbatim>\<open>ShoppingCart.remove_product(product, quantity)\<close>. Only \<^verbatim>\<open>DoesNotExist\<close> is caught
  and turned into \<^verbatim>\<open>False\<close>.
\<close>

definition remove_product :: "db \<Rightarrow> uuid \<Rightarrow> product \<Rightarrow> int \<Rightarrow> error + (bool \<times> db)" where
  "remove_product d c p q =
     (case objects_get d c (product_class p) (product_id p) of
        Inl DoesNotExist \<Rightarrow> Inr (False, d)
      | Inl e \<Rightarrow> Inl e
      | Inr cart_item \<Rightarrow>
          if quantity cart_item \<le> q
          then Inr (True, db_delete d cart_item)
          else (case save d False (cart_item\<lparr>quantity := quantity cart_item - q\<rparr>) of
                  Inl e \<Rightarrow> Inl e
                | Inr (_, d') \<Rightarrow> Inr (True, d')))"

text \<open>
  \<^verbatim>\<open>aggregate(total=Sum(...))['total']\<close>: SQL's SUM is NULL (\<^verbatim>\<open>None\<close>) over no rows.
\<close>

definition aggregate_Sum :: "(shopping_cart_item \<Rightarrow> decimal) \<Rightarrow> shopping_cart_item list \<Rightarrow> decimal option" where
  "aggregate_Sum f rows = (if rows = [] then None else Some (sum_list (map f rows)))"

text \<open>\<^verbatim>\<open>total or 0\<close>: 0 for \<^verbatim>\<open>None\<close> and for a total that is falsy, that is zero.\<close>

definition or_0 :: "decimal option \<Rightarrow> decimal" where
  "or_0 tot = (case tot of None \<Rightarrow> 0 | Some t \<Rightarrow> if t = 0 then 0 else t)"

definition calculate_total_price :: "db \<Rightarrow> uuid \<Rightarrow> decimal" where
  "calculate_total_price d c =
     or_0 (aggregate_Sum (\<lambda>it. quantity it * product_price it) (cart_items d c))"

definition calculate_total_weight :: "db \<Rightarrow> uuid \<Rightarrow> decimal" where
  "calculate_total_weight d c =
     or_0 (aggregate_Sum (\<lambda>it. quantity it * product_weight it) (cart_items d c))"

subsection \<open>The cart actions of \<^verbatim>\<open>ShoppingCartViewSet\<close>\<close>

text \<open>
  The body of the \<^verbatim>\<open>totals\<close> response, as numbers (the view renders the two totals with
  \<^verbatim>\<open>str\<close>).
\<close>

record totals =
  total_price :: decimal
  total_weight :: decimal
  item_count :: nat

definition get_totals :: "db \<Rightarrow> uuid \<Rightarrow> totals" where
  "get_totals d c =
     \<lparr>total_price = calculate_total_price d c,
      total_weight = calculate_total_weight d c,
      item_count = length (cart_items d c)\<rparr>"

text \<open>\<^verbatim>\<open>clear_cart\<close>: \<^verbatim>\<open>cart.items.all().delete()\<close>.\<close>

definition clear_cart :: "db \<Rightarrow> uuid \<Rightarrow> db" where
  "clear_cart d c = d\<lparr>items := filter (\<lambda>it. cart it \<noteq> c) (items d)\<rparr>"

text \<open>
  The \<^verbatim>\<open>add-product\<close> action. \<^verbatim>\<open>AddProductSerializer\<close> is defined in
  \<^verbatim>\<open>serializers.py\<close>; its verdict on the request is a parameter here: either the
  errors it reports, or the validated product and quantity.
\<close>

datatype 'e validation = Invalid 'e | Valid product int

datatype 'e response = HTTP_200_OK | HTTP_400_BAD_REQUEST 'e

definition view_add_product :: "db \<Rightarrow> uuid \<Rightarrow> 'e validation \<Rightarrow> error + ('e response \<times> db)" where
  "view_add_product d c serializer =
     (case serializer of
        Valid p q \<Rightarrow>
          (case add_product d c p q of
             Inl e \<Rightarrow> Inl e
           | Inr (cart_item, d') \<Rightarrow> Inr (HTTP_200_OK, d'))
      | Invalid errors \<Rightarrow> Inr (HTTP_400_BAD_REQUEST errors, d))"

subsection \<open>Instances in memory and the general \<^verbatim>\<open>save\<close>\<close>

text \<open>
  \<open>save\<close> above is \<^verbatim>\<open>ShoppingCartItem.save\<close> as \<open>add_product\<close> and \<open>remove_product\<close>
  call it: on an instance that was just read from the table or just built, which has not
  read its product yet and whose row, if stored, is the one with its triple. The method
  on any instance in memory needs what such an instance carries besides the field
  values: its primary key, the flag \<^verbatim>\<open>_state.adding\<close>, and the cache of the generic
  foreign key \<^verbatim>\<open>product\<close>, which holds what the first read of \<^verbatim>\<open>self.product\<close> returned.
\<close>

datatype product_cache = Not_read | Read "product option"

record cart_item_instance =
  pk :: uuid
  state_adding :: bool
  item_fields :: shopping_cart_item
  product_cache :: product_cache

text \<open>The database with the primary key of every cart-item row.\<close>

record store =
  product_tables :: "model_class \<times> uuid \<Rightarrow> product option"
  item_table :: "(uuid \<times> shopping_cart_item) list"

definition forget_pk :: "store \<Rightarrow> db" where
  "forget_pk s = \<lparr>products = product_tables s, items = map snd (item_table s)\<rparr>"

text \<open>An instance as a query returns it: not adding, product not read.\<close>

definition instance_of :: "uuid \<times> shopping_cart_item \<Rightarrow> cart_item_instance" where
  "instance_of kr = \<lparr>pk = fst kr, state_adding = False, item_fields = snd kr,
                      product_cache = Not_read\<rparr>"

text \<open>
  Reading \<^verbatim>\<open>self.product\<close> (\<^verbatim>\<open>GenericForeignKey.__get__\<close>): a cached \<^verbatim>\<open>None\<close> is
  returned as it is (Django releases older than this check look the row up again; no
  statement below depends on the difference); a cached object is returned when its class and primary key are
  still those the instance names, whatever the product table holds by now; otherwise the
  row is looked up in the table of the content type and the result, an object or
  \<^verbatim>\<open>None\<close>, is cached on the instance. The result comes with the instance as the read
  leaves it.
\<close>

definition read_product :: "store \<Rightarrow> cart_item_instance \<Rightarrow> product option \<times> cart_item_instance" where
  "read_product s i =
     (let looked_up = product_tables s (content_type (item_fields i), object_id (item_fields i))
      in case product_cache i of
           Read None \<Rightarrow> (None, i)
         | Read (Some p) \<Rightarrow>
             if product_class p = content_type (item_fields i)
                \<and> product_id p = object_id (item_fields i)
             then (Some p, i)
             else (looked_up, i\<lparr>product_cache := Read looked_up\<rparr>)
         | Not_read \<Rightarrow> (looked_up, i\<lparr>product_cache := Read looked_up\<rparr>))"

text \<open>
  \<^verbatim>\<open>Model.save\<close>: an instance that is not adding is written with an UPDATE of the row
  with its primary key; when no row has that key, and for an adding instance, the row is
  INSERTed, and the instance is no longer adding. The check of the quantity column and
  \<^verbatim>\<open>unique_together\<close> refuse a write with \<^verbatim>\<open>IntegrityError\<close>, and so does the primary
  key when an INSERT repeats it.
\<close>

definition Model_save :: "store \<Rightarrow> cart_item_instance \<Rightarrow> error + (cart_item_instance \<times> store)" where
  "Model_save s i =
     (if \<not> state_adding i \<and> pk i \<in> set (map fst (item_table s))
      then
        (if quantity (item_fields i) < 0 then Inl IntegrityError
         else if list_ex (\<lambda>(k, r). k \<noteq> pk i \<and> line_key r = line_key (item_fields i))
                   (item_table s)
         then Inl IntegrityError
         else Inr (i, s\<lparr>item_table :=
                           map (\<lambda>(k, r). if k = pk i then (k, item_fields i) else (k, r))
                             (item_table s)\<rparr>))
      else
        (if quantity (item_fields i) < 0 then Inl IntegrityError
         else if pk i \<in> set (map fst (item_table s)) then Inl IntegrityError
         else if line_key (item_fields i) \<in> set (map (line_key \<circ> snd) (item_table s))
         then Inl IntegrityError
         else Inr (i\<lparr>state_adding := False\<rparr>,
                   s\<lparr>item_table := item_table s @ [(pk i, item_fields i)]\<rparr>)))"

text \<open>
  \<^verbatim>\<open>ShoppingCartItem.save\<close> on an instance: when \<^verbatim>\<open>self.product\<close> is an object, both
  cached amounts are overwritten from that object; then \<^verbatim>\<open>super().save\<close>.
\<close>

definition ShoppingCartItem_save :: "store \<Rightarrow> cart_item_instance \<Rightarrow> error + (cart_item_instance \<times> store)" where
  "ShoppingCartItem_save s i =
     (case read_product s i of
        (Some p, i') \<Rightarrow>
          Model_save s
            (i'\<lparr>item_fields := (item_fields i')\<lparr>product_price := price_in_euros p,
                                                 product_weight := weight_in_kilograms p\<rparr>\<rparr>)
      | (None, i') \<Rightarrow> Model_save s i')"

text \<open>No two stored rows share a primary key or a triple.\<close>

definition keys_unique :: "store \<Rightarrow> bool" where
  "keys_unique s \<longleftrightarrow> distinct (map fst (item_table s))
                     \<and> distinct (map (line_key \<circ> snd) (item_table s))"

subsection \<open>Predicates on the cart-item table\<close>

text \<open>
  The constraint \<^verbatim>\<open>unique_together = ['cart', 'content_type', 'object_id']\<close> as a
  predicate on the table, and two predicates on the stored quantities: at least 1, and
  accepted by the check of the column.
\<close>

definition unique_lines :: "db \<Rightarrow> bool" where
  "unique_lines d = distinct (map line_key (items d))"

definition positive_quantities :: "db \<Rightarrow> bool" where
  "positive_quantities d = list_all (\<lambda>it. 1 \<le> quantity it) (items d)"

definition stored_quantities_checked :: "db \<Rightarrow> bool" where
  "stored_quantities_checked d = list_all (\<lambda>it. 0 \<le> quantity it) (items d)"

subsection \<open>Data for worked examples\<close>

text \<open>
  One book at 10.00 euros and 1.50 kg; a database without cart items; and a database
  where cart 7 holds two copies of the book, cached at an older price and weight.
\<close>

definition the_book :: product where
  "the_book = \<lparr>product_class = Book, product_id = 1, price_in_euros = 1000, weight_in_kilograms = 150\<rparr>"

definition catalogue :: "model_class \<times> uuid \<Rightarrow> product option" where
  "catalogue = Map.empty((Book, 1) \<mapsto> the_book)"

definition empty_db :: db where
  "empty_db = \<lparr>products = catalogue, items = []\<rparr>"

definition stale_line :: shopping_cart_item where
  "stale_line = \<lparr>cart = 7, quantity = 2, content_type = Book, object_id = 1,
                  product_price = 900, product_weight = 140\<rparr>"

definition stocked_db :: db where
  "stocked_db = \<lparr>products = catalogue, items = [stale_line]\<rparr>"

text \<open>
  A database with two carts: cart 7 holds the two copies cached at the older amounts,
  cart 8 holds two copies cached at the current ones.
\<close>

definition other_cart_line :: shopping_cart_item where
  "other_cart_line = \<lparr>cart = 8, quantity = 2, content_type = Book, object_id = 1,
                       product_price = 1000, product_weight = 150\<rparr>"

definition two_carts_db :: db where
  "two_carts_db = \<lparr>products = catalogue, items = [stale_line, other_cart_line]\<rparr>"

text \<open>A database where cart 7 holds a line for the book whose stored quantity is 0.\<close>

definition zero_line :: shopping_cart_item where
  "zero_line = \<lparr>cart = 7, quantity = 0, content_type = Book, object_id = 1,
                 product_price = 1000, product_weight = 150\<rparr>"

definition zero_db :: db where
  "zero_db = \<lparr>products = catalogue, items = [zero_line]\<rparr>"

text \<open>
  An album instance whose row is not in the catalogue (the album was deleted), and a
  database where cart 9 still holds a line for it, cached at 5.00 euros and 0.20 kg.
\<close>

definition the_album :: product where
  "the_album = \<lparr>product_class = MusicAlbum, product_id = 5, price_in_euros = 700,
                 weight_in_kilograms = 30\<rparr>"

definition orphan_line :: shopping_cart_item where
  "orphan_line = \<lparr>cart = 9, quantity = 1, content_type = MusicAlbum, object_id = 5,
                   product_price = 500, product_weight = 20\<rparr>"

definition orphan_db :: db where
  "orphan_db = \<lparr>products = catalogue, items = [orphan_line]\<rparr>"

text \<open>The book after a price rise to 12.00 euros, and the catalogue that holds it.\<close>

definition dearer_book :: product where
  "dearer_book = \<lparr>product_class = Book, product_id = 1, price_in_euros = 1200,
                   weight_in_kilograms = 150\<rparr>"

definition dearer_catalogue :: "model_class \<times> uuid \<Rightarrow> product option" where
  "dearer_catalogue = Map.empty((Book, 1) \<mapsto> dearer_book)"

text \<open>The line of \<open>stocked_db\<close> after one copy is taken off through a quantity of -1.\<close>

definition reduced_line :: shopping_cart_item where
  "reduced_line = \<lparr>cart = 7, quantity = 1, content_type = Book, object_id = 1,
                    product_price = 1000, product_weight = 150\<rparr>"

text \<open>
  Stores for worked examples. Row 41 is the line of cart 7, cached at the older amounts;
  \<open>held_instance\<close> is its instance after it has read the book at 10.00 euros and 1.50 kg.
  In \<open>repriced_store\<close> the book now costs 12.00 euros, in \<open>emptied_store\<close> the book is
  deleted. Row 42 is the line for the album that is not in its table.
\<close>

definition current_line :: shopping_cart_item where
  "current_line = \<lparr>cart = 7, quantity = 2, content_type = Book, object_id = 1,
                    product_price = 1000, product_weight = 150\<rparr>"

definition held_instance :: cart_item_instance where
  "held_instance = \<lparr>pk = 41, state_adding = False, item_fields = stale_line,
                     product_cache = Read (Some the_book)\<rparr>"

definition stocked_store :: store where
  "stocked_store = \<lparr>product_tables = catalogue, item_table = [(41, stale_line)]\<rparr>"

definition repriced_store :: store where
  "repriced_store = \<lparr>product_tables = dearer_catalogue, item_table = [(41, stale_line)]\<rparr>"


definition orphan_store :: store where
  "orphan_store = \<lparr>product_tables = catalogue, item_table = [(42, orphan_line)]\<rparr>"

definition new_instance :: cart_item_instance where
  "new_instance = \<lparr>pk = 43, state_adding = True, item_fields = stale_line,
                    product_cache = Not_read\<rparr>"

section \<open>Facts about the table\<close>

lemma objects_get_Inr_iff:
  "objects_get d c ct oid = Inr it \<longleftrightarrow> filter (\<lambda>r. line_key r = (c, ct, oid)) (items d) = [it]"
  by (auto simp: objects_get_def split: list.splits)

lemma filter_single_mem:
  "filter P xs = [x] \<Longrightarrow> P x \<and> x \<in> set xs"
proof -
  assume "filter P xs = [x]"
  then have "x \<in> set (filter P xs)" by simp
  then show ?thesis by simp
qed

lemma objects_get_absent_filter:
  "objects_get d c ct oid = Inl DoesNotExist \<longleftrightarrow> filter (\<lambda>r. line_key r = (c, ct, oid)) (items d) = []"
  by (simp add: objects_get_def split: list.splits)

lemma filter_key_empty:
  "filter (\<lambda>r. line_key r = k) xs = [] \<longleftrightarrow> k \<notin> line_key ` set xs"
  unfolding filter_empty_conv by (metis imageE image_eqI)

lemma objects_get_absent_iff:
  "objects_get d c ct oid = Inl DoesNotExist \<longleftrightarrow> (c, ct, oid) \<notin> line_key ` set (items d)"
  by (simp add: objects_get_absent_filter filter_key_empty)

lemma objects_get_Inr_key:
  "objects_get d c ct oid = Inr it \<Longrightarrow> line_key it = (c, ct, oid) \<and> it \<in> set (items d)"
  using filter_single_mem [of "\<lambda>r. line_key r = (c, ct, oid)" "items d" it]
  by (simp add: objects_get_Inr_iff)

lemma filter_replace_same:
  "P x \<Longrightarrow> filter P (map (\<lambda>r. if P r then x else r) xs) = replicate (length (filter P xs)) x"
  by (induction xs) auto

lemma line_key_refresh_cached [simp]: "line_key (refresh_cached d it) = line_key it"
  by (simp add: refresh_cached_def line_key_def split: option.splits)

lemma quantity_refresh_cached [simp]: "quantity (refresh_cached d it) = quantity it"
  by (simp add: refresh_cached_def split: option.splits)

lemma refresh_cached_resolved:
  "item_product d it = Some p \<Longrightarrow>
     product_price (refresh_cached d it) = price_in_euros p
     \<and> product_weight (refresh_cached d it) = weight_in_kilograms p"
  by (simp add: refresh_cached_def)

lemma refresh_cached_unresolved:
  "item_product d it = None \<Longrightarrow> refresh_cached d it = it"
  by (simp add: refresh_cached_def)

lemma save_update_present:
  assumes "0 \<le> quantity it" and "line_key it \<in> line_key ` set (items d)"
  shows "save d False it =
           Inr (refresh_cached d it,
                d\<lparr>items := map (\<lambda>r. if line_key r = line_key it then refresh_cached d it else r) (items d)\<rparr>)"
  using assms by (simp add: save_def db_update_def Let_def)

lemma save_insert_absent:
  assumes "0 \<le> quantity it" and "line_key it \<notin> line_key ` set (items d)"
  shows "save d True it = Inr (refresh_cached d it, d\<lparr>items := items d @ [refresh_cached d it]\<rparr>)"
  using assms by (simp add: save_def db_insert_def Let_def)

lemma save_negative:
  "quantity it < 0 \<Longrightarrow> save d adding it = Inl IntegrityError"
  by (simp add: save_def db_insert_def db_update_def Let_def)


lemma get_or_create_present:
  "objects_get d c ct oid = Inr it \<Longrightarrow> get_or_create d c ct oid q pr w = Inr ((it, False), d)"
  by (simp add: get_or_create_def)

lemma add_product_present:
  assumes "objects_get d c (product_class p) (product_id p) = Inr it"
    and "0 \<le> quantity it + q"
  shows "add_product d c p q =
           Inr (refresh_cached d (it\<lparr>quantity := quantity it + q\<rparr>),
                d\<lparr>items := map (\<lambda>r. if line_key r = (c, product_class p, product_id p)
                                    then refresh_cached d (it\<lparr>quantity := quantity it + q\<rparr>)
                                    else r) (items d)\<rparr>)"
proof -
  let ?it = "it\<lparr>quantity := quantity it + q\<rparr>"
  from assms(1) have k: "line_key it = (c, product_class p, product_id p)" and m: "it \<in> set (items d)"
    using objects_get_Inr_key by blast+
  have k': "line_key ?it = (c, product_class p, product_id p)"
    using k by (simp add: line_key_def)
  have "line_key ?it \<in> line_key ` set (items d)"
    using k k' m by (metis image_eqI)
  moreover have "0 \<le> quantity ?it" using assms(2) by simp
  ultimately have "save d False ?it =
      Inr (refresh_cached d ?it,
           d\<lparr>items := map (\<lambda>r. if line_key r = line_key ?it then refresh_cached d ?it else r) (items d)\<rparr>)"
    by (rule save_update_present [rotated])
  then show ?thesis
    using assms(1) k' by (simp add: add_product_def get_or_create_present)
qed

lemma add_product_absent:
  assumes "objects_get d c (product_class p) (product_id p) = Inl DoesNotExist"
    and "0 \<le> q"
  shows "add_product d c p q =
           (let new = refresh_cached d
                        \<lparr>cart = c, quantity = q, content_type = product_class p,
                         object_id = product_id p, product_price = price_in_euros p,
                         product_weight = weight_in_kilograms p\<rparr>
            in Inr (new, d\<lparr>items := items d @ [new]\<rparr>))"
proof -
  let ?new = "\<lparr>cart = c, quantity = q, content_type = product_class p,
               object_id = product_id p, product_price = price_in_euros p,
               product_weight = weight_in_kilograms p\<rparr>"
  have k: "line_key ?new = (c, product_class p, product_id p)"
    by (simp add: line_key_def)
  have "line_key ?new \<notin> line_key ` set (items d)"
    using assms(1) k by (simp add: objects_get_absent_iff)
  moreover have "0 \<le> quantity ?new" using assms(2) by simp
  ultimately have "save d True ?new = Inr (refresh_cached d ?new, d\<lparr>items := items d @ [refresh_cached d ?new]\<rparr>)"
    by (rule save_insert_absent [rotated])
  then show ?thesis
    using assms(1) by (simp add: add_product_def get_or_create_def Let_def)
qed

lemma objects_get_after_replace:
  assumes "objects_get d c ct oid = Inr it" and "line_key x = (c, ct, oid)"
  shows "objects_get (d\<lparr>items := map (\<lambda>r. if line_key r = (c, ct, oid) then x else r) (items d)\<rparr>) c ct oid = Inr x"
proof -
  from assms(1) have "filter (\<lambda>r. line_key r = (c, ct, oid)) (items d) = [it]"
    by (simp add: objects_get_Inr_iff)
  then have "filter (\<lambda>r. line_key r = (c, ct, oid))
               (map (\<lambda>r. if line_key r = (c, ct, oid) then x else r) (items d)) = [x]"
    using filter_replace_same [of "\<lambda>r. line_key r = (c, ct, oid)" x "items d"] assms(2) by simp
  then show ?thesis by (simp add: objects_get_Inr_iff)
qed

lemma others_after_replace:
  assumes "line_key x = k"
  shows "filter (\<lambda>r. line_key r \<noteq> k) (map (\<lambda>r. if line_key r = k then x else r) xs)
           = filter (\<lambda>r. line_key r \<noteq> k) xs"
  using assms by (induction xs) auto

lemma objects_get_after_append:
  assumes "objects_get d c ct oid = Inl DoesNotExist" and "line_key x = (c, ct, oid)"
  shows "objects_get (d\<lparr>items := items d @ [x]\<rparr>) c ct oid = Inr x"
  using assms by (simp add: objects_get_absent_filter objects_get_Inr_iff)

lemma objects_get_after_delete:
  "objects_get (db_delete d it) c ct oid =
     (if line_key it = (c, ct, oid) then Inl DoesNotExist else objects_get d c ct oid)"
proof -
  have "filter (\<lambda>r. line_key r = (c, ct, oid)) (filter (\<lambda>r. line_key r \<noteq> line_key it) (items d))
          = (if line_key it = (c, ct, oid) then [] else filter (\<lambda>r. line_key r = (c, ct, oid)) (items d))"
    by (induction "items d" arbitrary: d) (auto simp: filter_empty_conv intro: filter_cong)
  then show ?thesis by (simp add: objects_get_def db_delete_def)
qed


lemma length_after_delete:
  assumes "objects_get d c ct oid = Inr it"
  shows "length (items (db_delete d it)) + 1 = length (items d)"
proof -
  from assms have k: "line_key it = (c, ct, oid)"
    using objects_get_Inr_key by blast
  from assms have "length (filter (\<lambda>r. line_key r = line_key it) (items d)) = 1"
    by (simp add: objects_get_Inr_iff k)
  moreover have "length (filter (\<lambda>r. line_key r = line_key it) (items d))
        + length (filter (\<lambda>r. \<not> line_key r = line_key it) (items d)) = length (items d)"
    by (rule sum_length_filter_compl)
  ultimately show ?thesis by (simp add: db_delete_def)
qed

lemma remove_product_absent:
  "objects_get d c (product_class p) (product_id p) = Inl DoesNotExist \<Longrightarrow>
     remove_product d c p q = Inr (False, d)"
  by (simp add: remove_product_def)

lemma remove_product_all:
  "objects_get d c (product_class p) (product_id p) = Inr it \<Longrightarrow> quantity it \<le> q \<Longrightarrow>
     remove_product d c p q = Inr (True, db_delete d it)"
  by (simp add: remove_product_def)

lemma remove_product_some:
  assumes "objects_get d c (product_class p) (product_id p) = Inr it"
    and "q < quantity it"
  shows "remove_product d c p q =
           Inr (True,
                d\<lparr>items := map (\<lambda>r. if line_key r = (c, product_class p, product_id p)
                                    then refresh_cached d (it\<lparr>quantity := quantity it - q\<rparr>)
                                    else r) (items d)\<rparr>)"
proof -
  let ?it = "it\<lparr>quantity := quantity it - q\<rparr>"
  from assms(1) have k: "line_key it = (c, product_class p, product_id p)" and m: "it \<in> set (items d)"
    using objects_get_Inr_key by blast+
  have k': "line_key ?it = (c, product_class p, product_id p)"
    using k by (simp add: line_key_def)
  have "line_key ?it \<in> line_key ` set (items d)"
    using k k' m by (metis image_eqI)
  moreover have "0 \<le> quantity ?it" using assms(2) by simp
  ultimately have "save d False ?it =
      Inr (refresh_cached d ?it,
           d\<lparr>items := map (\<lambda>r. if line_key r = line_key ?it then refresh_cached d ?it else r) (items d)\<rparr>)"
    by (rule save_update_present [rotated])
  then show ?thesis
    using assms k' by (simp add: remove_product_def)
qed

lemma objects_get_cases:
  obtains (found) it where "objects_get d c ct oid = Inr it"
  | (absent) "objects_get d c ct oid = Inl DoesNotExist"
  | (several) "objects_get d c ct oid = Inl MultipleObjectsReturned"
proof (cases "filter (\<lambda>it. line_key it = (c, ct, oid)) (items d)")
  case Nil
  then have "objects_get d c ct oid = Inl DoesNotExist"
    by (simp add: objects_get_def)
  then show ?thesis by (rule absent)
next
  case outer: (Cons x xs)
  show ?thesis
  proof (cases xs)
    case Nil
    with outer have "objects_get d c ct oid = Inr x"
      by (simp add: objects_get_def)
    then show ?thesis by (rule found)
  next
    case (Cons y ys)
    with outer have "objects_get d c ct oid = Inl MultipleObjectsReturned"
      by (simp add: objects_get_def)
    then show ?thesis by (rule several)
  qed
qed

lemma add_product_several:
  "objects_get d c (product_class p) (product_id p) = Inl MultipleObjectsReturned \<Longrightarrow>
     add_product d c p q = Inl MultipleObjectsReturned"
  by (simp add: add_product_def get_or_create_def)

lemma add_product_present_negative:
  assumes "objects_get d c (product_class p) (product_id p) = Inr it"
    and "quantity it + q < 0"
  shows "add_product d c p q = Inl IntegrityError"
  using assms by (simp add: add_product_def get_or_create_present save_negative)

lemma add_product_absent_negative:
  assumes "objects_get d c (product_class p) (product_id p) = Inl DoesNotExist"
    and "q < 0"
  shows "add_product d c p q = Inl IntegrityError"
  using assms by (simp add: add_product_def get_or_create_def save_negative)

lemma add_product_Inr_cases:
  assumes "add_product d c p q = Inr (it', d')"
  obtains (updated) it where "objects_get d c (product_class p) (product_id p) = Inr it"
      and "0 \<le> quantity it + q"
      and "it' = refresh_cached d (it\<lparr>quantity := quantity it + q\<rparr>)"
      and "d' = d\<lparr>items := map (\<lambda>r. if line_key r = (c, product_class p, product_id p)
                                    then it' else r) (items d)\<rparr>"
  | (created) "objects_get d c (product_class p) (product_id p) = Inl DoesNotExist"
      and "0 \<le> q"
      and "it' = refresh_cached d
                        \<lparr>cart = c, quantity = q, content_type = product_class p,
                         object_id = product_id p, product_price = price_in_euros p,
                         product_weight = weight_in_kilograms p\<rparr>"
      and "d' = d\<lparr>items := items d @ [it']\<rparr>"
proof (cases rule: objects_get_cases [of d c "product_class p" "product_id p"])
  case (found it)
  show ?thesis
  proof (cases "0 \<le> quantity it + q")
    case True
    with found have "add_product d c p q =
           Inr (refresh_cached d (it\<lparr>quantity := quantity it + q\<rparr>),
                d\<lparr>items := map (\<lambda>r. if line_key r = (c, product_class p, product_id p)
                                    then refresh_cached d (it\<lparr>quantity := quantity it + q\<rparr>)
                                    else r) (items d)\<rparr>)"
      by (rule add_product_present)
    with assms have "it' = refresh_cached d (it\<lparr>quantity := quantity it + q\<rparr>)"
      and "d' = d\<lparr>items := map (\<lambda>r. if line_key r = (c, product_class p, product_id p)
                                    then it' else r) (items d)\<rparr>"
      by auto
    with found True show ?thesis by (rule updated)
  next
    case False
    with found assms show ?thesis
      by (simp add: add_product_present_negative)
  qed
next
  case absent
  show ?thesis
  proof (cases "0 \<le> q")
    case True
    with absent have "add_product d c p q =
           (let new = refresh_cached d
                        \<lparr>cart = c, quantity = q, content_type = product_class p,
                         object_id = product_id p, product_price = price_in_euros p,
                         product_weight = weight_in_kilograms p\<rparr>
            in Inr (new, d\<lparr>items := items d @ [new]\<rparr>))"
      by (rule add_product_absent)
    with assms have "it' = refresh_cached d
                        \<lparr>cart = c, quantity = q, content_type = product_class p,
                         object_id = product_id p, product_price = price_in_euros p,
                         product_weight = weight_in_kilograms p\<rparr>"
      and "d' = d\<lparr>items := items d @ [it']\<rparr>"
      by (auto simp: Let_def)
    with absent True show ?thesis by (rule created)
  next
    case False
    with absent assms show ?thesis
      by (simp add: add_product_absent_negative)
  qed
next
  case several
  with assms show ?thesis
    by (simp add: add_product_several)
qed

lemma remove_product_Inr_cases:
  assumes "remove_product d c p q = Inr (b, d')"
  obtains (absent) "objects_get d c (product_class p) (product_id p) = Inl DoesNotExist"
      and "b = False" and "d' = d"
  | (deleted) it where "objects_get d c (product_class p) (product_id p) = Inr it"
      and "quantity it \<le> q" and "b = True" and "d' = db_delete d it"
  | (reduced) it where "objects_get d c (product_class p) (product_id p) = Inr it"
      and "q < quantity it" and "b = True"
      and "d' = d\<lparr>items := map (\<lambda>r. if line_key r = (c, product_class p, product_id p)
                                    then refresh_cached d (it\<lparr>quantity := quantity it - q\<rparr>)
                                    else r) (items d)\<rparr>"
proof (cases rule: objects_get_cases [of d c "product_class p" "product_id p"])
  case (found it)
  show ?thesis
  proof (cases "quantity it \<le> q")
    case True
    with found have "remove_product d c p q = Inr (True, db_delete d it)"
      by (rule remove_product_all)
    with assms have "b = True" and "d' = db_delete d it" by auto
    with found True show ?thesis by (rule deleted)
  next
    case False
    then have lt: "q < quantity it" by simp
    with found have "remove_product d c p q =
           Inr (True,
                d\<lparr>items := map (\<lambda>r. if line_key r = (c, product_class p, product_id p)
                                    then refresh_cached d (it\<lparr>quantity := quantity it - q\<rparr>)
                                    else r) (items d)\<rparr>)"
      by (rule remove_product_some)
    with assms have "b = True"
      and "d' = d\<lparr>items := map (\<lambda>r. if line_key r = (c, product_class p, product_id p)
                                    then refresh_cached d (it\<lparr>quantity := quantity it - q\<rparr>)
                                    else r) (items d)\<rparr>"
      by auto
    with found lt show ?thesis by (rule reduced)
  qed
next
  case absent
  then have "remove_product d c p q = Inr (False, d)"
    by (rule remove_product_absent)
  with assms have "b = False" and "d' = d" by auto
  with absent show ?thesis by (rule that(1))
next
  case several
  with assms show ?thesis
    by (simp add: remove_product_def)
qed

lemma keys_after_replace:
  "line_key x = k \<Longrightarrow> map line_key (map (\<lambda>r. if line_key r = k then x else r) xs) = map line_key xs"
  by (induction xs) auto

lemma unique_lines_replace:
  "line_key x = k \<Longrightarrow> unique_lines d \<Longrightarrow>
     unique_lines (d\<lparr>items := map (\<lambda>r. if line_key r = k then x else r) (items d)\<rparr>)"
  by (simp add: unique_lines_def keys_after_replace del: map_map)

lemma unique_lines_append:
  "line_key x \<notin> line_key ` set (items d) \<Longrightarrow> unique_lines d \<Longrightarrow>
     unique_lines (d\<lparr>items := items d @ [x]\<rparr>)"
  by (simp add: unique_lines_def)

lemma unique_lines_filter:
  "unique_lines d \<Longrightarrow> unique_lines (d\<lparr>items := filter P (items d)\<rparr>)"
  by (simp add: unique_lines_def distinct_map_filter)

lemma unique_lines_add_product:
  assumes "unique_lines d" and "add_product d c p q = Inr (it', d')"
  shows "unique_lines d'"
  using assms(2)
proof (cases rule: add_product_Inr_cases)
  case (updated it)
  from updated(1) have "line_key it = (c, product_class p, product_id p)"
    using objects_get_Inr_key by blast
  then have "line_key (it\<lparr>quantity := quantity it + q\<rparr>) = (c, product_class p, product_id p)"
    by (simp add: line_key_def)
  then have "line_key it' = (c, product_class p, product_id p)"
    using updated(3) by simp
  with assms(1) updated(4) show ?thesis
    by (simp add: unique_lines_replace)
next
  case created
  have "line_key \<lparr>cart = c, quantity = q, content_type = product_class p,
                         object_id = product_id p, product_price = price_in_euros p,
                         product_weight = weight_in_kilograms p\<rparr> = (c, product_class p, product_id p)"
    by (simp add: line_key_def)
  then have "line_key it' = (c, product_class p, product_id p)"
    using created(3) by simp
  then have "line_key it' \<notin> line_key ` set (items d)"
    using created(1) by (simp add: objects_get_absent_iff)
  with assms(1) created(4) show ?thesis
    by (simp add: unique_lines_append)
qed

lemma unique_lines_remove_product:
  assumes "unique_lines d" and "remove_product d c p q = Inr (b, d')"
  shows "unique_lines d'"
  using assms(2)
proof (cases rule: remove_product_Inr_cases)
  case absent
  with assms(1) show ?thesis by simp
next
  case (deleted it)
  with assms(1) show ?thesis
    by (simp add: db_delete_def unique_lines_filter)
next
  case (reduced it)
  from reduced(1) have "line_key it = (c, product_class p, product_id p)"
    using objects_get_Inr_key by blast
  then have "line_key (it\<lparr>quantity := quantity it - q\<rparr>) = (c, product_class p, product_id p)"
    by (simp add: line_key_def)
  then have "line_key (refresh_cached d (it\<lparr>quantity := quantity it - q\<rparr>)) = (c, product_class p, product_id p)"
    by simp
  with assms(1) reduced(4) show ?thesis
    by (simp add: unique_lines_replace)
qed

lemma single_line_after_add_product:
  assumes "add_product d c p q = Inr (it', d')"
  shows "objects_get d' c (product_class p) (product_id p) = Inr it'"
  using assms
proof (cases rule: add_product_Inr_cases)
  case (updated it)
  from updated(1) have "line_key it = (c, product_class p, product_id p)"
    using objects_get_Inr_key by blast
  then have "line_key (it\<lparr>quantity := quantity it + q\<rparr>) = (c, product_class p, product_id p)"
    by (simp add: line_key_def)
  then have "line_key it' = (c, product_class p, product_id p)"
    using updated(3) by simp
  with updated(1,4) show ?thesis
    by (simp add: objects_get_after_replace)
next
  case created
  have "line_key \<lparr>cart = c, quantity = q, content_type = product_class p,
                         object_id = product_id p, product_price = price_in_euros p,
                         product_weight = weight_in_kilograms p\<rparr> = (c, product_class p, product_id p)"
    by (simp add: line_key_def)
  then have "line_key it' = (c, product_class p, product_id p)"
    using created(3) by simp
  with created(1,4) show ?thesis
    by (simp add: objects_get_after_append)
qed

lemma objects_get_products_update [simp]:
  "objects_get (d\<lparr>products := P\<rparr>) c ct oid = objects_get d c ct oid"
  by (simp add: objects_get_def)

lemma add_twice_current_price:
  assumes absent: "objects_get d c (product_class p) (product_id p) = Inl DoesNotExist"
    and q1: "0 \<le> q1" and q12: "0 \<le> q1 + q2"
    and same: "product_class p' = product_class p" "product_id p' = product_id p"
    and live: "P (product_class p, product_id p) = Some live"
  shows "\<exists>i1 d1 i2 d2. add_product d c p q1 = Inr (i1, d1)
        \<and> add_product (d1\<lparr>products := P\<rparr>) c p' q2 = Inr (i2, d2)
        \<and> filter (\<lambda>r. line_key r = (c, product_class p, product_id p)) (items d2) = [i2]
        \<and> quantity i2 = q1 + q2
        \<and> product_price i2 = price_in_euros live
        \<and> product_weight i2 = weight_in_kilograms live"
proof -
  let ?new = "\<lparr>cart = c, quantity = q1, content_type = product_class p,
               object_id = product_id p, product_price = price_in_euros p,
               product_weight = weight_in_kilograms p\<rparr>"
  let ?i1 = "refresh_cached d ?new"
  let ?d1 = "d\<lparr>items := items d @ [?i1]\<rparr>"
  let ?d1' = "?d1\<lparr>products := P\<rparr>"
  let ?i2 = "refresh_cached ?d1' (?i1\<lparr>quantity := quantity ?i1 + q2\<rparr>)"
  let ?d2 = "?d1'\<lparr>items := map (\<lambda>r. if line_key r = (c, product_class p', product_id p')
                                    then ?i2 else r) (items ?d1')\<rparr>"
  have r1: "add_product d c p q1 = Inr (?i1, ?d1)"
    using absent q1 by (simp add: add_product_absent Let_def)
  have "line_key ?new = (c, product_class p, product_id p)"
    by (simp add: line_key_def)
  then have k1: "line_key ?i1 = (c, product_class p, product_id p)" by simp
  have ct: "content_type ?i1 = product_class p" and oid: "object_id ?i1 = product_id p"
    by (simp_all add: refresh_cached_def split: option.splits)
  have g1: "objects_get ?d1' c (product_class p') (product_id p') = Inr ?i1"
    using absent k1 by (simp add: same objects_get_after_append)
  have "0 \<le> quantity ?i1 + q2" using q12 by simp
  with g1 have r2: "add_product ?d1' c p' q2 = Inr (?i2, ?d2)"
    by (rule add_product_present)
  then have "objects_get ?d2 c (product_class p') (product_id p') = Inr ?i2"
    by (rule single_line_after_add_product)
  then have f: "filter (\<lambda>r. line_key r = (c, product_class p, product_id p)) (items ?d2) = [?i2]"
    by (simp add: objects_get_Inr_iff same)
  have qty: "quantity ?i2 = q1 + q2" by simp
  have "item_product ?d1' (?i1\<lparr>quantity := quantity ?i1 + q2\<rparr>) = Some live"
    using live by (simp add: item_product_def ct oid)
  then have pr: "product_price ?i2 = price_in_euros live"
    and we: "product_weight ?i2 = weight_in_kilograms live"
    by (simp_all add: refresh_cached_resolved)
  show ?thesis
    apply (rule exI [of _ ?i1])
    apply (rule exI [of _ ?d1])
    apply (rule exI [of _ ?i2])
    apply (rule exI [of _ ?d2])
    apply (intro conjI)
    apply (rule r1, rule r2, rule f, rule qty, rule pr, rule we)
    done
qed

lemma list_all_replace:
  "P x \<Longrightarrow> list_all P xs \<Longrightarrow> list_all P (map (\<lambda>r. if K r then x else r) xs)"
  by (induction xs) auto

lemma list_all_filter:
  "list_all P xs \<Longrightarrow> list_all P (filter Q xs)"
  by (induction xs) auto

lemma positive_quantities_add_product:
  assumes "positive_quantities d" and "1 \<le> q" and "add_product d c p q = Inr (it', d')"
  shows "positive_quantities d'"
  using assms(3)
proof (cases rule: add_product_Inr_cases)
  case (updated it)
  from updated(1) have "it \<in> set (items d)"
    using objects_get_Inr_key by blast
  with assms(1) have "1 \<le> quantity it"
    by (simp add: positive_quantities_def list_all_iff)
  with assms(2) updated(3) have "1 \<le> quantity it'" by simp
  with assms(1) updated(4) show ?thesis
    by (simp add: positive_quantities_def list_all_replace)
next
  case created
  with assms(2) have "1 \<le> quantity it'" by simp
  with assms(1) created(4) show ?thesis
    by (simp add: positive_quantities_def)
qed

lemma positive_quantities_remove_product:
  assumes "positive_quantities d" and "remove_product d c p q = Inr (b, d')"
  shows "positive_quantities d'"
  using assms(2)
proof (cases rule: remove_product_Inr_cases)
  case absent
  with assms(1) show ?thesis by simp
next
  case (deleted it)
  with assms(1) show ?thesis
    by (simp add: positive_quantities_def db_delete_def list_all_filter)
next
  case (reduced it)
  then have "1 \<le> quantity (refresh_cached d (it\<lparr>quantity := quantity it - q\<rparr>))"
    by simp
  with assms(1) reduced(4) show ?thesis
    by (simp add: positive_quantities_def list_all_replace)
qed

lemma checked_add_product:
  assumes "stored_quantities_checked d" and "add_product d c p q = Inr (it', d')"
  shows "stored_quantities_checked d'"
  using assms(2)
proof (cases rule: add_product_Inr_cases)
  case (updated it)
  then have "0 \<le> quantity it'" by simp
  with assms(1) updated(4) show ?thesis
    by (simp add: stored_quantities_checked_def list_all_replace)
next
  case created
  then have "0 \<le> quantity it'" by simp
  with assms(1) created(4) show ?thesis
    by (simp add: stored_quantities_checked_def)
qed

lemma checked_remove_product:
  assumes "stored_quantities_checked d" and "remove_product d c p q = Inr (b, d')"
  shows "stored_quantities_checked d'"
  using assms(2)
proof (cases rule: remove_product_Inr_cases)
  case absent
  with assms(1) show ?thesis by simp
next
  case (deleted it)
  with assms(1) show ?thesis
    by (simp add: stored_quantities_checked_def db_delete_def list_all_filter)
next
  case (reduced it)
  then have "0 \<le> quantity (refresh_cached d (it\<lparr>quantity := quantity it - q\<rparr>))"
    by simp
  with assms(1) reduced(4) show ?thesis
    by (simp add: stored_quantities_checked_def list_all_replace)
qed

text \<open>
  On a table that satisfies \<^verbatim>\<open>unique_together\<close>, \<^verbatim>\<open>get\<close> finds the line or raises
  \<^verbatim>\<open>DoesNotExist\<close>: there is no third outcome.
\<close>

lemma distinct_keys_filter_le_1:
  "distinct (map f xs) \<Longrightarrow> length (filter (\<lambda>r. f r = k) xs) \<le> 1"
proof (induction xs)
  case Nil
  then show ?case by simp
next
  case (Cons x xs)
  show ?case
  proof (cases "f x = k")
    case True
    with Cons.prems have "k \<notin> f ` set xs" by auto
    then have "filter (\<lambda>r. f r = k) xs = []"
      by (auto simp: filter_empty_conv)
    with True show ?thesis by simp
  next
    case False
    with Cons show ?thesis by simp
  qed
qed

lemma objects_get_unique_lines:
  assumes "unique_lines d"
  shows "objects_get d c ct oid \<noteq> Inl MultipleObjectsReturned"
proof -
  from assms have "length (filter (\<lambda>r. line_key r = (c, ct, oid)) (items d)) \<le> 1"
    unfolding unique_lines_def by (rule distinct_keys_filter_le_1)
  then show ?thesis
    by (auto simp: objects_get_def split: list.splits)
qed

section \<open>Facts about instances and the general save\<close>

lemma Model_save_Inr:
  assumes "Model_save s i = Inr (i', s')"
  shows "item_fields i' = item_fields i \<and> pk i' = pk i \<and> product_cache i' = product_cache i
         \<and> \<not> state_adding i'
         \<and> (pk i, item_fields i) \<in> set (item_table s')
         \<and> product_tables s' = product_tables s"
proof (cases "\<not> state_adding i \<and> pk i \<in> set (map fst (item_table s))")
  case True
  with assms have i': "i' = i"
    and s': "s' = s\<lparr>item_table := map (\<lambda>(k, r). if k = pk i then (k, item_fields i) else (k, r))
                             (item_table s)\<rparr>"
    by (auto simp: Model_save_def split: if_splits)
  from True obtain r where "(pk i, r) \<in> set (item_table s)" by auto
  then have "(pk i, item_fields i) \<in> set (item_table s')"
    unfolding s' by (force simp: image_iff)
  with True i' s' show ?thesis by simp
next
  case False
  with assms have "i' = i\<lparr>state_adding := False\<rparr>"
    and "s' = s\<lparr>item_table := item_table s @ [(pk i, item_fields i)]\<rparr>"
    by (auto simp: Model_save_def split: if_splits)
  then show ?thesis by simp
qed

lemma same_triple_same_row:
  assumes "distinct (map (line_key \<circ> snd) t)"
    and "(k, r) \<in> set t" and "(k', r') \<in> set t" and "line_key r' = line_key r"
  shows "k' = k"
proof -
  from assms(1) have "inj_on (line_key \<circ> snd) (set t)"
    by (simp add: distinct_map)
  moreover have "(line_key \<circ> snd) (k', r') = (line_key \<circ> snd) (k, r)"
    using assms(4) by simp
  ultimately have "(k', r') = (k, r)"
    using assms(3,2) by (rule inj_onD)
  then show ?thesis by simp
qed

lemma Model_save_stored:
  assumes "\<not> state_adding i" and "(pk i, r) \<in> set (item_table s)"
    and "line_key (item_fields i) = line_key r"
    and "distinct (map (line_key \<circ> snd) (item_table s))"
    and "0 \<le> quantity (item_fields i)"
  shows "Model_save s i =
           Inr (i, s\<lparr>item_table := map (\<lambda>(k, r). if k = pk i then (k, item_fields i) else (k, r))
                             (item_table s)\<rparr>)"
proof -
  from assms(2) have m: "pk i \<in> set (map fst (item_table s))" by force
  have "\<not> list_ex (\<lambda>(k, r'). k \<noteq> pk i \<and> line_key r' = line_key (item_fields i)) (item_table s)"
  proof
    assume "list_ex (\<lambda>(k, r'). k \<noteq> pk i \<and> line_key r' = line_key (item_fields i)) (item_table s)"
    then obtain k r' where "(k, r') \<in> set (item_table s)" and "k \<noteq> pk i"
      and "line_key r' = line_key (item_fields i)"
      by (auto simp: list_ex_iff)
    with assms(2-4) show False
      using same_triple_same_row [of "item_table s" "pk i" r k r'] by simp
  qed
  with assms(1,5) m show ?thesis
    by (simp add: Model_save_def)
qed


lemma same_pk_same_row:
  assumes "distinct (map fst t)" and "(k, r) \<in> set t" and "(k, r') \<in> set t"
  shows "r' = r"
proof -
  from assms(1) have "inj_on fst (set t)"
    by (simp add: distinct_map)
  moreover have "fst (k, r') = fst (k, r)" by simp
  ultimately have "(k, r') = (k, r)"
    using assms(3,2) by (rule inj_onD)
  then show ?thesis by simp
qed

lemma Model_save_new:
  assumes "state_adding i" and "pk i \<notin> fst ` set (item_table s)"
    and "line_key (item_fields i) \<notin> (line_key \<circ> snd) ` set (item_table s)"
    and "0 \<le> quantity (item_fields i)"
  shows "Model_save s i =
           Inr (i\<lparr>state_adding := False\<rparr>,
                s\<lparr>item_table := item_table s @ [(pk i, item_fields i)]\<rparr>)"
  using assms by (simp add: Model_save_def)

lemma read_product_not_read:
  "product_cache i = Not_read \<Longrightarrow>
     read_product s i =
       (product_tables s (content_type (item_fields i), object_id (item_fields i)),
        i\<lparr>product_cache := Read (product_tables s (content_type (item_fields i),
                                                     object_id (item_fields i)))\<rparr>)"
  by (simp add: read_product_def Let_def)

lemma read_product_held:
  "product_cache i = Read (Some p) \<Longrightarrow> product_class p = content_type (item_fields i) \<Longrightarrow>
     product_id p = object_id (item_fields i) \<Longrightarrow> read_product s i = (Some p, i)"
  by (simp add: read_product_def Let_def)


lemma save_from_object:
  assumes "read_product s i = (Some p, j)"
    and "ShoppingCartItem_save s i = Inr (i', s')"
  shows "product_price (item_fields i') = price_in_euros p
         \<and> product_weight (item_fields i') = weight_in_kilograms p
         \<and> quantity (item_fields i') = quantity (item_fields j)
         \<and> line_key (item_fields i') = line_key (item_fields j)
         \<and> (pk j, item_fields i') \<in> set (item_table s')
         \<and> product_cache i' = product_cache j
         \<and> product_tables s' = product_tables s"
proof -
  let ?j = "j\<lparr>item_fields := (item_fields j)\<lparr>product_price := price_in_euros p,
                                                 product_weight := weight_in_kilograms p\<rparr>\<rparr>"
  from assms have "Model_save s ?j = Inr (i', s')"
    by (simp add: ShoppingCartItem_save_def)
  then have "item_fields i' = item_fields ?j \<and> pk i' = pk ?j \<and> product_cache i' = product_cache ?j
         \<and> \<not> state_adding i'
         \<and> (pk ?j, item_fields ?j) \<in> set (item_table s')
         \<and> product_tables s' = product_tables s"
    by (rule Model_save_Inr)
  then show ?thesis by (simp add: line_key_def)
qed


lemma read_product_keeps:
  "read_product s i = (p, j) \<Longrightarrow>
     pk j = pk i \<and> state_adding j = state_adding i \<and> item_fields j = item_fields i"
  by (auto simp: read_product_def Let_def split: product_cache.splits option.splits if_splits)

lemma save_stored_succeeds:
  assumes "\<not> state_adding i" and "(pk i, r) \<in> set (item_table s)"
    and "line_key (item_fields i) = line_key r"
    and "distinct (map (line_key \<circ> snd) (item_table s))"
    and "0 \<le> quantity (item_fields i)"
  shows "\<exists>i' s'. ShoppingCartItem_save s i = Inr (i', s')"
proof -
  obtain p j where rp: "read_product s i = (p, j)" by (cases "read_product s i")
  then have j: "pk j = pk i \<and> state_adding j = state_adding i \<and> item_fields j = item_fields i"
    by (rule read_product_keeps)
  show ?thesis
  proof (cases p)
    case None
    from assms j have "Model_save s j =
           Inr (j, s\<lparr>item_table := map (\<lambda>(k, r). if k = pk j then (k, item_fields j) else (k, r))
                             (item_table s)\<rparr>)"
      by (intro Model_save_stored [of j r]) simp_all
    with rp None show ?thesis by (simp add: ShoppingCartItem_save_def)
  next
    case (Some prod)
    let ?j = "j\<lparr>item_fields := (item_fields j)\<lparr>product_price := price_in_euros prod,
                                                 product_weight := weight_in_kilograms prod\<rparr>\<rparr>"
    from assms j have "Model_save s ?j =
           Inr (?j, s\<lparr>item_table := map (\<lambda>(k, r). if k = pk ?j then (k, item_fields ?j) else (k, r))
                             (item_table s)\<rparr>)"
      by (intro Model_save_stored [of ?j r]) (simp_all add: line_key_def)
    with rp Some show ?thesis by (simp add: ShoppingCartItem_save_def)
  qed
qed

lemma save_new_succeeds:
  assumes "state_adding i" and "pk i \<notin> fst ` set (item_table s)"
    and "line_key (item_fields i) \<notin> (line_key \<circ> snd) ` set (item_table s)"
    and "0 \<le> quantity (item_fields i)"
  shows "\<exists>i' s'. ShoppingCartItem_save s i = Inr (i', s')"
proof -
  obtain p j where rp: "read_product s i = (p, j)" by (cases "read_product s i")
  then have j: "pk j = pk i \<and> state_adding j = state_adding i \<and> item_fields j = item_fields i"
    by (rule read_product_keeps)
  show ?thesis
  proof (cases p)
    case None
    from assms j have "Model_save s j =
           Inr (j\<lparr>state_adding := False\<rparr>,
                s\<lparr>item_table := item_table s @ [(pk j, item_fields j)]\<rparr>)"
      by (intro Model_save_new) simp_all
    with rp None show ?thesis by (simp add: ShoppingCartItem_save_def)
  next
    case (Some prod)
    let ?j = "j\<lparr>item_fields := (item_fields j)\<lparr>product_price := price_in_euros prod,
                                                 product_weight := weight_in_kilograms prod\<rparr>\<rparr>"
    from assms j have "Model_save s ?j =
           Inr (?j\<lparr>state_adding := False\<rparr>,
                s\<lparr>item_table := item_table s @ [(pk ?j, item_fields ?j)]\<rparr>)"
      by (intro Model_save_new) (simp_all add: line_key_def)
    with rp Some show ?thesis by (simp add: ShoppingCartItem_save_def)
  qed
qed

text \<open>
  For an instance that has not read its product and whose row, if it is stored, is the
  row with its triple, the general method and \<open>save\<close> agree: the instances that
  \<open>add_product\<close> and \<open>remove_product\<close> save are of this kind.
\<close>

lemma item_product_forget_pk:
  "item_product (forget_pk s) it = product_tables s (content_type it, object_id it)"
  by (simp add: item_product_def forget_pk_def)

lemma save_fresh_refreshes:
  assumes "product_cache i = Not_read"
  shows "\<exists>j. ShoppingCartItem_save s i = Model_save s j
           \<and> item_fields j = refresh_cached (forget_pk s) (item_fields i)
           \<and> pk j = pk i \<and> state_adding j = state_adding i"
proof (cases "product_tables s (content_type (item_fields i), object_id (item_fields i))")
  case None
  let ?j = "i\<lparr>product_cache := Read None\<rparr>"
  from assms None have "ShoppingCartItem_save s i = Model_save s ?j"
    by (simp add: ShoppingCartItem_save_def read_product_not_read)
  moreover from None have "item_fields ?j = refresh_cached (forget_pk s) (item_fields i)"
    by (simp add: refresh_cached_def item_product_forget_pk)
  ultimately show ?thesis
    by (intro exI [of _ ?j]) simp
next
  case (Some p)
  let ?j = "i\<lparr>product_cache := Read (Some p),
              item_fields := (item_fields i)\<lparr>product_price := price_in_euros p,
                                              product_weight := weight_in_kilograms p\<rparr>\<rparr>"
  from assms Some have "ShoppingCartItem_save s i = Model_save s ?j"
    by (simp add: ShoppingCartItem_save_def read_product_not_read)
  moreover from Some have "item_fields ?j = refresh_cached (forget_pk s) (item_fields i)"
    by (simp add: refresh_cached_def item_product_forget_pk)
  ultimately show ?thesis
    by (intro exI [of _ ?j]) simp
qed

lemma forget_pk_update:
  assumes "\<forall>(k, r) \<in> set t. (k = n) = (line_key r = line_key f)"
  shows "map snd (map (\<lambda>(k, r). if k = n then (k, f) else (k, r)) t)
           = map (\<lambda>r. if line_key r = line_key f then f else r) (map snd t)"
  using assms by (induction t) auto

lemma forget_pk_item_table:
  "forget_pk (s\<lparr>item_table := t\<rparr>) = (forget_pk s)\<lparr>items := map snd t\<rparr>"
  by (simp add: forget_pk_def)

lemma items_forget_pk: "items (forget_pk s) = map snd (item_table s)"
  by (simp add: forget_pk_def)

lemma Model_save_forget_pk_insert:
  assumes "state_adding j" and "pk j \<notin> fst ` set (item_table s)"
  shows "(case Model_save s j of Inl e \<Rightarrow> Inl e
          | Inr (i', s') \<Rightarrow> Inr (item_fields i', forget_pk s'))
         = (case db_insert (forget_pk s) (item_fields j) of
              Inl e \<Rightarrow> Inl e
            | Inr d' \<Rightarrow> Inr (item_fields j, d'))"
proof -
  have c: "(line_key (item_fields j) \<in> set (map (line_key \<circ> snd) (item_table s)))
             = (line_key (item_fields j) \<in> set (map line_key (items (forget_pk s))))"
    by (simp add: items_forget_pk)
  show ?thesis
  proof (cases "quantity (item_fields j) < 0")
    case True
    with assms show ?thesis
      by (simp add: Model_save_def db_insert_def)
  next
    case nonneg: False
    show ?thesis
    proof (cases "line_key (item_fields j) \<in> set (map line_key (items (forget_pk s)))")
      case True
      with c have "line_key (item_fields j) \<in> set (map (line_key \<circ> snd) (item_table s))"
        by blast
      with assms nonneg have "Model_save s j = Inl IntegrityError"
        by (simp add: Model_save_def)
      moreover from True nonneg have "db_insert (forget_pk s) (item_fields j) = Inl IntegrityError"
        by (simp only: db_insert_def if_True if_False)
      ultimately show ?thesis by simp
    next
      case False
      with c have "line_key (item_fields j) \<notin> set (map (line_key \<circ> snd) (item_table s))"
        by blast
      with assms nonneg have "Model_save s j =
           Inr (j\<lparr>state_adding := False\<rparr>,
                s\<lparr>item_table := item_table s @ [(pk j, item_fields j)]\<rparr>)"
        by (simp add: Model_save_def)
      moreover from False nonneg have "db_insert (forget_pk s) (item_fields j)
           = Inr ((forget_pk s)\<lparr>items := items (forget_pk s) @ [item_fields j]\<rparr>)"
        by (simp only: db_insert_def if_True if_False)
      ultimately show ?thesis
        by (simp add: forget_pk_item_table items_forget_pk)
    qed
  qed
qed

lemma Model_save_forget_pk_update:
  assumes "keys_unique s" and "\<not> state_adding j"
    and r: "(pk j, r) \<in> set (item_table s)" and k: "line_key r = line_key (item_fields j)"
  shows "(case Model_save s j of Inl e \<Rightarrow> Inl e
          | Inr (i', s') \<Rightarrow> Inr (item_fields i', forget_pk s'))
         = (case db_update (forget_pk s) (item_fields j) of
              Inl e \<Rightarrow> Inl e
            | Inr d' \<Rightarrow> Inr (item_fields j, d'))"
proof -
  from assms(1) have dk: "distinct (map fst (item_table s))"
    and dt: "distinct (map (line_key \<circ> snd) (item_table s))"
    by (simp_all add: keys_unique_def)
  have same: "\<forall>(k, r') \<in> set (item_table s). (k = pk j) = (line_key r' = line_key (item_fields j))"
  proof (clarify, rule iffI)
    fix n r'
    assume "(n, r') \<in> set (item_table s)" and "n = pk j"
    then have "(pk j, r') \<in> set (item_table s)" by simp
    with dk r have "r' = r" by (rule same_pk_same_row)
    with k show "line_key r' = line_key (item_fields j)" by simp
  next
    fix n r'
    assume m: "(n, r') \<in> set (item_table s)" and e: "line_key r' = line_key (item_fields j)"
    from e k have "line_key r' = line_key r" by simp
    with dt r m show "n = pk j" by (rule same_triple_same_row)
  qed
  from r have m: "pk j \<in> set (map fst (item_table s))" by force
  have "line_key r \<in> set (map line_key (map snd (item_table s)))"
    using r by force
  with k have mk: "line_key (item_fields j) \<in> set (map line_key (items (forget_pk s)))"
    by (simp only: items_forget_pk)
  have no: "\<not> list_ex (\<lambda>(k, r'). k \<noteq> pk j \<and> line_key r' = line_key (item_fields j)) (item_table s)"
  proof
    assume "list_ex (\<lambda>(k, r'). k \<noteq> pk j \<and> line_key r' = line_key (item_fields j)) (item_table s)"
    then obtain n r' where "(n, r') \<in> set (item_table s)" and "n \<noteq> pk j"
      and "line_key r' = line_key (item_fields j)"
      by (auto simp: list_ex_iff)
    with same show False by blast
  qed
  show ?thesis
  proof (cases "quantity (item_fields j) < 0")
    case True
    with assms(2) m have "Model_save s j = Inl IntegrityError"
      by (simp add: Model_save_def)
    moreover from True have "db_update (forget_pk s) (item_fields j) = Inl IntegrityError"
      by (simp only: db_update_def if_True)
    ultimately show ?thesis by simp
  next
    case nonneg: False
    let ?t = "map (\<lambda>(k, r). if k = pk j then (k, item_fields j) else (k, r)) (item_table s)"
    let ?l = "map (\<lambda>r. if line_key r = line_key (item_fields j) then item_fields j else r)
                (items (forget_pk s))"
    have ms: "Model_save s j = Inr (j, s\<lparr>item_table := ?t\<rparr>)"
      using assms(2) m no nonneg by (simp add: Model_save_def)
    have du: "db_update (forget_pk s) (item_fields j) = Inr ((forget_pk s)\<lparr>items := ?l\<rparr>)"
      using nonneg mk by (simp only: db_update_def if_True if_False)
    have "map snd ?t = ?l"
      unfolding items_forget_pk using same by (rule forget_pk_update)
    then have "forget_pk (s\<lparr>item_table := ?t\<rparr>) = (forget_pk s)\<lparr>items := ?l\<rparr>"
      by (simp only: forget_pk_item_table)
    with ms du show ?thesis by simp
  qed
qed

lemma ShoppingCartItem_save_fresh:
  assumes "product_cache i = Not_read" and "keys_unique s"
    and "state_adding i \<longrightarrow> pk i \<notin> fst ` set (item_table s)"
    and "\<not> state_adding i \<longrightarrow>
           (\<exists>r. (pk i, r) \<in> set (item_table s) \<and> line_key r = line_key (item_fields i))"
  shows "(case ShoppingCartItem_save s i of Inl e \<Rightarrow> Inl e
          | Inr (i', s') \<Rightarrow> Inr (item_fields i', forget_pk s'))
         = save (forget_pk s) (state_adding i) (item_fields i)"
proof -
  from assms(1) obtain j where run: "ShoppingCartItem_save s i = Model_save s j"
    and f: "item_fields j = refresh_cached (forget_pk s) (item_fields i)"
    and k: "pk j = pk i" and a: "state_adding j = state_adding i"
    using save_fresh_refreshes by blast
  from f have lk: "line_key (item_fields j) = line_key (item_fields i)" by simp
  show ?thesis
  proof (cases "state_adding i")
    case True
    with assms(3) a k have "state_adding j" and "pk j \<notin> fst ` set (item_table s)"
      by simp_all
    then have "(case Model_save s j of Inl e \<Rightarrow> Inl e
          | Inr (i', s') \<Rightarrow> Inr (item_fields i', forget_pk s'))
         = (case db_insert (forget_pk s) (item_fields j) of
              Inl e \<Rightarrow> Inl e
            | Inr d' \<Rightarrow> Inr (item_fields j, d'))"
      by (rule Model_save_forget_pk_insert)
    moreover from True have "save (forget_pk s) (state_adding i) (item_fields i)
         = (case db_insert (forget_pk s) (item_fields j) of
              Inl e \<Rightarrow> Inl e
            | Inr d' \<Rightarrow> Inr (item_fields j, d'))"
      unfolding save_def Let_def f by simp
    ultimately show ?thesis unfolding run by simp
  next
    case False
    with assms(4) k lk obtain r where "(pk j, r) \<in> set (item_table s)"
      and "line_key r = line_key (item_fields j)" by auto
    with assms(2) False a have "(case Model_save s j of Inl e \<Rightarrow> Inl e
          | Inr (i', s') \<Rightarrow> Inr (item_fields i', forget_pk s'))
         = (case db_update (forget_pk s) (item_fields j) of
              Inl e \<Rightarrow> Inl e
            | Inr d' \<Rightarrow> Inr (item_fields j, d'))"
      by (intro Model_save_forget_pk_update [of s j r]) simp_all
    moreover from False have "save (forget_pk s) (state_adding i) (item_fields i)
         = (case db_update (forget_pk s) (item_fields j) of
              Inl e \<Rightarrow> Inl e
            | Inr d' \<Rightarrow> Inr (item_fields j, d'))"
      unfolding save_def Let_def f by simp
    ultimately show ?thesis unfolding run by simp
  qed
qed

section \<open>Totals\<close>

text \<open>
  C3. The total price of a cart is the sum of \<open>quantity * product_price\<close> over the rows
  of the table whose cart is this cart, and the total weight the sum of
  \<open>quantity * product_weight\<close> over the same rows; rows of other carts do not count. For
  a cart without rows both are exactly 0.
\<close>

theorem totals_are_sums:
  "calculate_total_price d c
     = (\<Sum>it\<leftarrow>filter (\<lambda>it. cart it = c) (items d). quantity it * product_price it)
   \<and> calculate_total_weight d c
     = (\<Sum>it\<leftarrow>filter (\<lambda>it. cart it = c) (items d). quantity it * product_weight it)
   \<and> (filter (\<lambda>it. cart it = c) (items d) = [] \<longrightarrow>
        calculate_total_price d c = 0 \<and> calculate_total_weight d c = 0)"
  by (simp add: calculate_total_price_def calculate_total_weight_def cart_items_def
      aggregate_Sum_def or_0_def)

theorem totals_are_sums_witness:
  "items two_carts_db = [stale_line, other_cart_line]
   \<and> cart stale_line = 7 \<and> cart other_cart_line = 8
   \<and> calculate_total_price two_carts_db 7 = 1800 \<and> calculate_total_weight two_carts_db 7 = 280
   \<and> calculate_total_price two_carts_db 8 = 2000 \<and> calculate_total_weight two_carts_db 8 = 300
   \<and> filter (\<lambda>it. cart it = 9) (items two_carts_db) = []
   \<and> calculate_total_price two_carts_db 9 = 0 \<and> calculate_total_weight two_carts_db 9 = 0"
proof -
  have rows: "items two_carts_db = [stale_line, other_cart_line]"
    by (simp add: two_carts_db_def)
  have carts: "cart stale_line = 7" "cart other_cart_line = 8"
    by (simp_all add: stale_line_def other_cart_line_def)
  have f7: "filter (\<lambda>it. cart it = 7) (items two_carts_db) = [stale_line]"
    and f8: "filter (\<lambda>it. cart it = 8) (items two_carts_db) = [other_cart_line]"
    and f9: "filter (\<lambda>it. cart it = 9) (items two_carts_db) = []"
    by (simp_all add: rows carts)
  have v: "quantity stale_line * product_price stale_line = 1800"
    "quantity stale_line * product_weight stale_line = 280"
    "quantity other_cart_line * product_price other_cart_line = 2000"
    "quantity other_cart_line * product_weight other_cart_line = 300"
    by (simp_all add: stale_line_def other_cart_line_def)
  from totals_are_sums [of two_carts_db 7] totals_are_sums [of two_carts_db 8]
    totals_are_sums [of two_carts_db 9] f9
  show ?thesis
    by (simp add: rows carts f7 f8 v)
qed

section \<open>Adding a product\<close>

text \<open>
  C1. \<open>add_product\<close> is an upsert on the line \<open>(cart, content type, product id)\<close>.
  When the line exists, its quantity grows by \<open>q\<close> and the row is saved again in place:
  the cached amounts are those of the live product when it resolves (and stay as they
  were when it does not), and no other row changes. When the line does not exist, one
  row is appended with quantity \<open>q\<close>, its cached amounts taken from the live product
  (from the instance passed in when the product does not resolve). The write is accepted
  by the check of the quantity column whenever the resulting quantity is not negative,
  in particular for every \<open>q \<ge> 1\<close> on a stored line.
\<close>

theorem add_product_upsert:
  "(objects_get d c (product_class p) (product_id p) = Inr it \<and> 0 \<le> quantity it + q \<longrightarrow>
      (\<exists>it' d'. add_product d c p q = Inr (it', d')
         \<and> objects_get d' c (product_class p) (product_id p) = Inr it'
         \<and> quantity it' = quantity it + q
         \<and> (\<forall>live. products d (product_class p, product_id p) = Some live \<longrightarrow>
               product_price it' = price_in_euros live
               \<and> product_weight it' = weight_in_kilograms live)
         \<and> (products d (product_class p, product_id p) = None \<longrightarrow>
               product_price it' = product_price it \<and> product_weight it' = product_weight it)
         \<and> filter (\<lambda>r. line_key r \<noteq> (c, product_class p, product_id p)) (items d')
             = filter (\<lambda>r. line_key r \<noteq> (c, product_class p, product_id p)) (items d)
         \<and> length (items d') = length (items d)
         \<and> products d' = products d))
   \<and> (objects_get d c (product_class p) (product_id p) = Inl DoesNotExist \<and> 0 \<le> q \<longrightarrow>
      (\<exists>it' d'. add_product d c p q = Inr (it', d')
         \<and> objects_get d' c (product_class p) (product_id p) = Inr it'
         \<and> items d' = items d @ [it']
         \<and> line_key it' = (c, product_class p, product_id p)
         \<and> quantity it' = q
         \<and> (\<forall>live. products d (product_class p, product_id p) = Some live \<longrightarrow>
               product_price it' = price_in_euros live
               \<and> product_weight it' = weight_in_kilograms live)
         \<and> (products d (product_class p, product_id p) = None \<longrightarrow>
               product_price it' = price_in_euros p
               \<and> product_weight it' = weight_in_kilograms p)
         \<and> products d' = products d))"
proof (intro conjI impI)
  assume h: "objects_get d c (product_class p) (product_id p) = Inr it \<and> 0 \<le> quantity it + q"
  let ?k = "(c, product_class p, product_id p)"
  let ?it = "refresh_cached d (it\<lparr>quantity := quantity it + q\<rparr>)"
  let ?d = "d\<lparr>items := map (\<lambda>r. if line_key r = ?k then ?it else r) (items d)\<rparr>"
  from h have k: "line_key it = ?k"
    using objects_get_Inr_key by blast
  then have ct: "content_type it = product_class p" and oid: "object_id it = product_id p"
    by (simp_all add: line_key_def)
  have "line_key (it\<lparr>quantity := quantity it + q\<rparr>) = ?k"
    using k by (simp add: line_key_def)
  then have k': "line_key ?it = ?k" by simp
  have run: "add_product d c p q = Inr (?it, ?d)"
    using h by (simp add: add_product_present)
  have found: "objects_get ?d c (product_class p) (product_id p) = Inr ?it"
    using h k' by (simp add: objects_get_after_replace)
  have qty: "quantity ?it = quantity it + q" by simp
  have fresh: "\<forall>live. products d (product_class p, product_id p) = Some live \<longrightarrow>
                 product_price ?it = price_in_euros live \<and> product_weight ?it = weight_in_kilograms live"
    by (simp add: refresh_cached_def item_product_def ct oid)
  have kept: "products d (product_class p, product_id p) = None \<longrightarrow>
                 product_price ?it = product_price it \<and> product_weight ?it = product_weight it"
    by (simp add: refresh_cached_def item_product_def ct oid)
  have others: "filter (\<lambda>r. line_key r \<noteq> ?k) (items ?d) = filter (\<lambda>r. line_key r \<noteq> ?k) (items d)"
    using k' by (simp add: others_after_replace)
  have len: "length (items ?d) = length (items d)" by simp
  have prods: "products ?d = products d" by simp
  show "\<exists>it' d'. add_product d c p q = Inr (it', d')
         \<and> objects_get d' c (product_class p) (product_id p) = Inr it'
         \<and> quantity it' = quantity it + q
         \<and> (\<forall>live. products d (product_class p, product_id p) = Some live \<longrightarrow>
               product_price it' = price_in_euros live
               \<and> product_weight it' = weight_in_kilograms live)
         \<and> (products d (product_class p, product_id p) = None \<longrightarrow>
               product_price it' = product_price it \<and> product_weight it' = product_weight it)
         \<and> filter (\<lambda>r. line_key r \<noteq> (c, product_class p, product_id p)) (items d')
             = filter (\<lambda>r. line_key r \<noteq> (c, product_class p, product_id p)) (items d)
         \<and> length (items d') = length (items d)
         \<and> products d' = products d"
    apply (rule exI [of _ ?it])
    apply (rule exI [of _ ?d])
    apply (intro conjI)
    apply (rule run, rule found, rule qty, rule fresh, rule kept, rule others, rule len, rule prods)
    done
next
  assume h: "objects_get d c (product_class p) (product_id p) = Inl DoesNotExist \<and> 0 \<le> q"
  let ?k = "(c, product_class p, product_id p)"
  let ?new = "\<lparr>cart = c, quantity = q, content_type = product_class p,
               object_id = product_id p, product_price = price_in_euros p,
               product_weight = weight_in_kilograms p\<rparr>"
  let ?it = "refresh_cached d ?new"
  let ?d = "d\<lparr>items := items d @ [?it]\<rparr>"
  have "line_key ?new = ?k" by (simp add: line_key_def)
  then have k': "line_key ?it = ?k" by simp
  have run: "add_product d c p q = Inr (?it, ?d)"
    using h by (simp add: add_product_absent Let_def)
  have found: "objects_get ?d c (product_class p) (product_id p) = Inr ?it"
    using h k' by (simp add: objects_get_after_append)
  have app: "items ?d = items d @ [?it]" by simp
  have qty: "quantity ?it = q" by simp
  have fresh: "\<forall>live. products d (product_class p, product_id p) = Some live \<longrightarrow>
                 product_price ?it = price_in_euros live \<and> product_weight ?it = weight_in_kilograms live"
    by (simp add: refresh_cached_def item_product_def)
  have kept: "products d (product_class p, product_id p) = None \<longrightarrow>
                 product_price ?it = price_in_euros p \<and> product_weight ?it = weight_in_kilograms p"
    by (simp add: refresh_cached_def item_product_def)
  have prods: "products ?d = products d" by simp
  show "\<exists>it' d'. add_product d c p q = Inr (it', d')
         \<and> objects_get d' c (product_class p) (product_id p) = Inr it'
         \<and> items d' = items d @ [it']
         \<and> line_key it' = (c, product_class p, product_id p)
         \<and> quantity it' = q
         \<and> (\<forall>live. products d (product_class p, product_id p) = Some live \<longrightarrow>
               product_price it' = price_in_euros live
               \<and> product_weight it' = weight_in_kilograms live)
         \<and> (products d (product_class p, product_id p) = None \<longrightarrow>
               product_price it' = price_in_euros p
               \<and> product_weight it' = weight_in_kilograms p)
         \<and> products d' = products d"
    apply (rule exI [of _ ?it])
    apply (rule exI [of _ ?d])
    apply (intro conjI)
    apply (rule run, rule found, rule app, rule k', rule qty, rule fresh, rule kept, rule prods)
    done
qed

theorem add_product_upsert_witness:
  "(objects_get stocked_db 7 Book 1 = Inr stale_line \<and> (0::int) \<le> quantity stale_line + 3)
   \<and> (\<exists>it' d'. add_product stocked_db 7 the_book 3 = Inr (it', d')
         \<and> objects_get d' 7 Book 1 = Inr it'
         \<and> quantity it' = 5 \<and> product_price it' = 1000 \<and> product_weight it' = 150
         \<and> length (items d') = 1)
   \<and> (objects_get empty_db 7 Book 1 = Inl DoesNotExist \<and> (0::int) \<le> 2)
   \<and> (\<exists>it' d'. add_product empty_db 7 the_book 2 = Inr (it', d')
         \<and> items d' = [it']
         \<and> quantity it' = 2 \<and> product_price it' = 1000 \<and> product_weight it' = 150)"
proof -
  have h1: "objects_get stocked_db 7 (product_class the_book) (product_id the_book) = Inr stale_line
              \<and> 0 \<le> quantity stale_line + 3"
    by (simp add: objects_get_def stocked_db_def stale_line_def line_key_def the_book_def)
  have h2: "objects_get empty_db 7 (product_class the_book) (product_id the_book) = Inl DoesNotExist
              \<and> (0::int) \<le> 2"
    by (simp add: objects_get_def empty_db_def the_book_def)
  have live1: "products stocked_db (product_class the_book, product_id the_book) = Some the_book"
    by (simp add: stocked_db_def catalogue_def the_book_def)
  have live2: "products empty_db (product_class the_book, product_id the_book) = Some the_book"
    by (simp add: empty_db_def catalogue_def the_book_def)
  have pc: "product_class the_book = Book" "product_id the_book = 1"
    "price_in_euros the_book = 1000" "weight_in_kilograms the_book = 150"
    by (simp_all add: the_book_def)
  have q: "quantity stale_line = 2" by (simp add: stale_line_def)
  have l: "length (items stocked_db) = 1" "items empty_db = []"
    by (simp_all add: stocked_db_def empty_db_def)
  from add_product_upsert [of stocked_db 7 the_book stale_line 3] h1
  obtain i1 d1 where r1: "add_product stocked_db 7 the_book 3 = Inr (i1, d1)"
    and g1: "objects_get d1 7 (product_class the_book) (product_id the_book) = Inr i1"
    and q1: "quantity i1 = quantity stale_line + 3"
    and f1: "\<forall>live. products stocked_db (product_class the_book, product_id the_book) = Some live \<longrightarrow>
               product_price i1 = price_in_euros live \<and> product_weight i1 = weight_in_kilograms live"
    and l1: "length (items d1) = length (items stocked_db)"
    by blast
  from f1 live1 have p1: "product_price i1 = 1000 \<and> product_weight i1 = 150"
    by (simp add: pc)
  from r1 g1 q1 p1 l1
  have a: "\<exists>it' d'. add_product stocked_db 7 the_book 3 = Inr (it', d')
         \<and> objects_get d' 7 Book 1 = Inr it'
         \<and> quantity it' = 5 \<and> product_price it' = 1000 \<and> product_weight it' = 150
         \<and> length (items d') = 1"
    by (simp add: pc q l)
  from add_product_upsert [of empty_db 7 the_book undefined 2] h2
  obtain i2 d2 where r2: "add_product empty_db 7 the_book 2 = Inr (i2, d2)"
    and a2: "items d2 = items empty_db @ [i2]"
    and q2: "quantity i2 = 2"
    and f2: "\<forall>live. products empty_db (product_class the_book, product_id the_book) = Some live \<longrightarrow>
               product_price i2 = price_in_euros live \<and> product_weight i2 = weight_in_kilograms live"
    by blast
  from f2 live2 have p2: "product_price i2 = 1000 \<and> product_weight i2 = 150"
    by (simp add: pc)
  from r2 a2 q2 p2
  have b: "\<exists>it' d'. add_product empty_db 7 the_book 2 = Inr (it', d')
         \<and> items d' = [it']
         \<and> quantity it' = 2 \<and> product_price it' = 1000 \<and> product_weight it' = 150"
    by (simp add: l)
  from h1 h2 a b show ?thesis unfolding pc by simp
qed


section \<open>Removing a product\<close>

text \<open>
  C2. \<open>remove_product\<close> on a line that is not in the cart returns \<open>False\<close> and leaves the
  database as it was. On a line that is there: when its quantity is at most \<open>q\<close> the row
  is deleted (one row fewer, the line is no longer found, no other row changes);
  otherwise \<open>q\<close> is subtracted and the row is saved again in place, which refreshes the
  cached amounts from the live product when it resolves. In both cases the result is the
  boolean \<open>True\<close>, not the item.
\<close>

theorem remove_product_decrement:
  "(objects_get d c (product_class p) (product_id p) = Inl DoesNotExist \<longrightarrow>
      remove_product d c p q = Inr (False, d))
   \<and> (objects_get d c (product_class p) (product_id p) = Inr it \<and> quantity it \<le> q \<longrightarrow>
      (\<exists>d'. remove_product d c p q = Inr (True, d')
         \<and> objects_get d' c (product_class p) (product_id p) = Inl DoesNotExist
         \<and> filter (\<lambda>r. line_key r \<noteq> (c, product_class p, product_id p)) (items d')
             = filter (\<lambda>r. line_key r \<noteq> (c, product_class p, product_id p)) (items d)
         \<and> length (items d') + 1 = length (items d)
         \<and> products d' = products d))
   \<and> (objects_get d c (product_class p) (product_id p) = Inr it \<and> q < quantity it \<longrightarrow>
      (\<exists>it' d'. remove_product d c p q = Inr (True, d')
         \<and> objects_get d' c (product_class p) (product_id p) = Inr it'
         \<and> quantity it' = quantity it - q
         \<and> (\<forall>live. products d (product_class p, product_id p) = Some live \<longrightarrow>
               product_price it' = price_in_euros live
               \<and> product_weight it' = weight_in_kilograms live)
         \<and> (products d (product_class p, product_id p) = None \<longrightarrow>
               product_price it' = product_price it \<and> product_weight it' = product_weight it)
         \<and> filter (\<lambda>r. line_key r \<noteq> (c, product_class p, product_id p)) (items d')
             = filter (\<lambda>r. line_key r \<noteq> (c, product_class p, product_id p)) (items d)
         \<and> length (items d') = length (items d)
         \<and> products d' = products d))"
proof (intro conjI impI)
  assume "objects_get d c (product_class p) (product_id p) = Inl DoesNotExist"
  then show "remove_product d c p q = Inr (False, d)"
    by (rule remove_product_absent)
next
  assume h: "objects_get d c (product_class p) (product_id p) = Inr it \<and> quantity it \<le> q"
  let ?k = "(c, product_class p, product_id p)"
  let ?d = "db_delete d it"
  from h have k: "line_key it = ?k"
    using objects_get_Inr_key by blast
  have run: "remove_product d c p q = Inr (True, ?d)"
    using h by (simp add: remove_product_all)
  have gone: "objects_get ?d c (product_class p) (product_id p) = Inl DoesNotExist"
    using k by (simp add: objects_get_after_delete)
  have others: "filter (\<lambda>r. line_key r \<noteq> ?k) (items ?d) = filter (\<lambda>r. line_key r \<noteq> ?k) (items d)"
    by (simp add: db_delete_def k)
  have len: "length (items ?d) + 1 = length (items d)"
    using h length_after_delete by blast
  have prods: "products ?d = products d" by (simp add: db_delete_def)
  show "\<exists>d'. remove_product d c p q = Inr (True, d')
         \<and> objects_get d' c (product_class p) (product_id p) = Inl DoesNotExist
         \<and> filter (\<lambda>r. line_key r \<noteq> (c, product_class p, product_id p)) (items d')
             = filter (\<lambda>r. line_key r \<noteq> (c, product_class p, product_id p)) (items d)
         \<and> length (items d') + 1 = length (items d)
         \<and> products d' = products d"
    apply (rule exI [of _ ?d])
    apply (intro conjI)
    apply (rule run, rule gone, rule others, rule len, rule prods)
    done
next
  assume h: "objects_get d c (product_class p) (product_id p) = Inr it \<and> q < quantity it"
  let ?k = "(c, product_class p, product_id p)"
  let ?it = "refresh_cached d (it\<lparr>quantity := quantity it - q\<rparr>)"
  let ?d = "d\<lparr>items := map (\<lambda>r. if line_key r = ?k then ?it else r) (items d)\<rparr>"
  from h have k: "line_key it = ?k"
    using objects_get_Inr_key by blast
  then have ct: "content_type it = product_class p" and oid: "object_id it = product_id p"
    by (simp_all add: line_key_def)
  have "line_key (it\<lparr>quantity := quantity it - q\<rparr>) = ?k"
    using k by (simp add: line_key_def)
  then have k': "line_key ?it = ?k" by simp
  have run: "remove_product d c p q = Inr (True, ?d)"
    using h by (simp add: remove_product_some)
  have found: "objects_get ?d c (product_class p) (product_id p) = Inr ?it"
    using h k' by (simp add: objects_get_after_replace)
  have qty: "quantity ?it = quantity it - q" by simp
  have fresh: "\<forall>live. products d (product_class p, product_id p) = Some live \<longrightarrow>
                 product_price ?it = price_in_euros live \<and> product_weight ?it = weight_in_kilograms live"
    by (simp add: refresh_cached_def item_product_def ct oid)
  have kept: "products d (product_class p, product_id p) = None \<longrightarrow>
                 product_price ?it = product_price it \<and> product_weight ?it = product_weight it"
    by (simp add: refresh_cached_def item_product_def ct oid)
  have others: "filter (\<lambda>r. line_key r \<noteq> ?k) (items ?d) = filter (\<lambda>r. line_key r \<noteq> ?k) (items d)"
    using k' by (simp add: others_after_replace)
  have len: "length (items ?d) = length (items d)" by simp
  have prods: "products ?d = products d" by simp
  show "\<exists>it' d'. remove_product d c p q = Inr (True, d')
         \<and> objects_get d' c (product_class p) (product_id p) = Inr it'
         \<and> quantity it' = quantity it - q
         \<and> (\<forall>live. products d (product_class p, product_id p) = Some live \<longrightarrow>
               product_price it' = price_in_euros live
               \<and> product_weight it' = weight_in_kilograms live)
         \<and> (products d (product_class p, product_id p) = None \<longrightarrow>
               product_price it' = product_price it \<and> product_weight it' = product_weight it)
         \<and> filter (\<lambda>r. line_key r \<noteq> (c, product_class p, product_id p)) (items d')
             = filter (\<lambda>r. line_key r \<noteq> (c, product_class p, product_id p)) (items d)
         \<and> length (items d') = length (items d)
         \<and> products d' = products d"
    apply (rule exI [of _ ?it])
    apply (rule exI [of _ ?d])
    apply (intro conjI)
    apply (rule run, rule found, rule qty, rule fresh, rule kept, rule others, rule len, rule prods)
    done
qed


theorem remove_product_decrement_witness:
  "(objects_get empty_db 7 Book 1 = Inl DoesNotExist
      \<and> remove_product empty_db 7 the_book 1 = Inr (False, empty_db))
   \<and> (objects_get stocked_db 7 Book 1 = Inr stale_line \<and> quantity stale_line \<le> 5
      \<and> (\<exists>d'. remove_product stocked_db 7 the_book 5 = Inr (True, d') \<and> items d' = []))
   \<and> (objects_get stocked_db 7 Book 1 = Inr stale_line \<and> 1 < quantity stale_line
      \<and> (\<exists>it' d'. remove_product stocked_db 7 the_book 1 = Inr (True, d')
            \<and> objects_get d' 7 Book 1 = Inr it'
            \<and> quantity it' = 1 \<and> product_price it' = 1000 \<and> product_weight it' = 150))"
proof -
  have pc: "product_class the_book = Book" "product_id the_book = 1"
    "price_in_euros the_book = 1000" "weight_in_kilograms the_book = 150"
    by (simp_all add: the_book_def)
  have q: "quantity stale_line = 2" by (simp add: stale_line_def)
  have l: "length (items stocked_db) = 1"
    by (simp add: stocked_db_def)
  have h0: "objects_get empty_db 7 (product_class the_book) (product_id the_book) = Inl DoesNotExist"
    by (simp add: objects_get_def empty_db_def the_book_def)
  have h1: "objects_get stocked_db 7 (product_class the_book) (product_id the_book) = Inr stale_line"
    by (simp add: objects_get_def stocked_db_def stale_line_def line_key_def the_book_def)
  have live: "products stocked_db (product_class the_book, product_id the_book) = Some the_book"
    by (simp add: stocked_db_def catalogue_def the_book_def)
  from remove_product_decrement [of empty_db 7 the_book 1 undefined] h0
  have a: "remove_product empty_db 7 the_book 1 = Inr (False, empty_db)"
    by simp
  from remove_product_decrement [of stocked_db 7 the_book 5 stale_line] h1
  obtain d1 where r1: "remove_product stocked_db 7 the_book 5 = Inr (True, d1)"
    and l1: "length (items d1) + 1 = length (items stocked_db)"
    by (auto simp: q)
  from l1 have e1: "items d1 = []" by (simp add: l)
  from remove_product_decrement [of stocked_db 7 the_book 1 stale_line] h1
  obtain i2 d2 where r2: "remove_product stocked_db 7 the_book 1 = Inr (True, d2)"
    and g2: "objects_get d2 7 (product_class the_book) (product_id the_book) = Inr i2"
    and q2: "quantity i2 = quantity stale_line - 1"
    and f2: "\<forall>live. products stocked_db (product_class the_book, product_id the_book) = Some live \<longrightarrow>
               product_price i2 = price_in_euros live \<and> product_weight i2 = weight_in_kilograms live"
    by (auto simp: q)
  from f2 live have p2: "product_price i2 = 1000 \<and> product_weight i2 = 150"
    by (simp add: pc)
  from h0 h1 a r1 e1 r2 g2 q2 p2 show ?thesis
    by (simp add: pc q)
qed

text \<open>
  C10, as amended. On a line whose stored quantity is at least 1, \<open>remove_product\<close> with
  quantity 0 returns \<open>True\<close>, keeps the line with its quantity, and saves it again: the
  cached amounts are those of the live product when it resolves, and the row is exactly as
  it was when it does not. On a line whose stored quantity is 0 (the column admits it)
  the same call deletes the line, because the test is \<open>quantity \<le> 0\<close>.
\<close>

theorem remove_product_zero:
  "(objects_get d c (product_class p) (product_id p) = Inr it \<and> 1 \<le> quantity it \<longrightarrow>
      (\<exists>it' d'. remove_product d c p 0 = Inr (True, d')
         \<and> objects_get d' c (product_class p) (product_id p) = Inr it'
         \<and> quantity it' = quantity it
         \<and> (\<forall>live. products d (product_class p, product_id p) = Some live \<longrightarrow>
               product_price it' = price_in_euros live
               \<and> product_weight it' = weight_in_kilograms live)
         \<and> (products d (product_class p, product_id p) = None \<longrightarrow> it' = it)
         \<and> filter (\<lambda>r. line_key r \<noteq> (c, product_class p, product_id p)) (items d')
             = filter (\<lambda>r. line_key r \<noteq> (c, product_class p, product_id p)) (items d)
         \<and> length (items d') = length (items d)
         \<and> products d' = products d))
   \<and> (objects_get d c (product_class p) (product_id p) = Inr it \<and> quantity it = 0 \<longrightarrow>
      (\<exists>d'. remove_product d c p 0 = Inr (True, d')
         \<and> objects_get d' c (product_class p) (product_id p) = Inl DoesNotExist))"
proof (intro conjI impI)
  assume h: "objects_get d c (product_class p) (product_id p) = Inr it \<and> 1 \<le> quantity it"
  let ?k = "(c, product_class p, product_id p)"
  let ?it = "refresh_cached d (it\<lparr>quantity := quantity it - 0\<rparr>)"
  let ?d = "d\<lparr>items := map (\<lambda>r. if line_key r = ?k then ?it else r) (items d)\<rparr>"
  from h have k: "line_key it = ?k"
    using objects_get_Inr_key by blast
  then have ct: "content_type it = product_class p" and oid: "object_id it = product_id p"
    by (simp_all add: line_key_def)
  have same: "it\<lparr>quantity := quantity it - 0\<rparr> = it" by simp
  have k': "line_key ?it = ?k" using k by simp
  have "0 < quantity it" using h by simp
  then have run: "remove_product d c p 0 = Inr (True, ?d)"
    using h remove_product_some [of d c p it 0] by blast
  have found: "objects_get ?d c (product_class p) (product_id p) = Inr ?it"
    using h k' objects_get_after_replace [of d c "product_class p" "product_id p" it ?it] by blast
  have qty: "quantity ?it = quantity it" by simp
  have fresh: "\<forall>live. products d (product_class p, product_id p) = Some live \<longrightarrow>
                 product_price ?it = price_in_euros live \<and> product_weight ?it = weight_in_kilograms live"
    by (simp add: refresh_cached_def item_product_def ct oid)
  have kept: "products d (product_class p, product_id p) = None \<longrightarrow> ?it = it"
    by (simp add: refresh_cached_def item_product_def ct oid)
  have others: "filter (\<lambda>r. line_key r \<noteq> ?k) (items ?d) = filter (\<lambda>r. line_key r \<noteq> ?k) (items d)"
    using k' others_after_replace [of ?it ?k "items d"] by simp
  have len: "length (items ?d) = length (items d)" by simp
  have prods: "products ?d = products d" by simp
  show "\<exists>it' d'. remove_product d c p 0 = Inr (True, d')
         \<and> objects_get d' c (product_class p) (product_id p) = Inr it'
         \<and> quantity it' = quantity it
         \<and> (\<forall>live. products d (product_class p, product_id p) = Some live \<longrightarrow>
               product_price it' = price_in_euros live
               \<and> product_weight it' = weight_in_kilograms live)
         \<and> (products d (product_class p, product_id p) = None \<longrightarrow> it' = it)
         \<and> filter (\<lambda>r. line_key r \<noteq> (c, product_class p, product_id p)) (items d')
             = filter (\<lambda>r. line_key r \<noteq> (c, product_class p, product_id p)) (items d)
         \<and> length (items d') = length (items d)
         \<and> products d' = products d"
    apply (rule exI [of _ ?it])
    apply (rule exI [of _ ?d])
    apply (intro conjI)
    apply (rule run, rule found, rule qty, rule fresh, rule kept, rule others, rule len, rule prods)
    done
next
  assume h: "objects_get d c (product_class p) (product_id p) = Inr it \<and> quantity it = 0"
  from h have k: "line_key it = (c, product_class p, product_id p)"
    using objects_get_Inr_key by blast
  have run: "remove_product d c p 0 = Inr (True, db_delete d it)"
    using h by (simp add: remove_product_all)
  have gone: "objects_get (db_delete d it) c (product_class p) (product_id p) = Inl DoesNotExist"
    using k by (simp add: objects_get_after_delete)
  from run gone
  show "\<exists>d'. remove_product d c p 0 = Inr (True, d')
         \<and> objects_get d' c (product_class p) (product_id p) = Inl DoesNotExist"
    by blast
qed

theorem remove_product_zero_witness:
  "(objects_get stocked_db 7 Book 1 = Inr stale_line \<and> 1 \<le> quantity stale_line)
   \<and> (\<exists>it' d'. remove_product stocked_db 7 the_book 0 = Inr (True, d')
         \<and> objects_get d' 7 Book 1 = Inr it'
         \<and> quantity it' = 2 \<and> product_price it' = 1000 \<and> product_weight it' = 150)
   \<and> (objects_get zero_db 7 Book 1 = Inr zero_line \<and> quantity zero_line = 0)
   \<and> (\<exists>d'. remove_product zero_db 7 the_book 0 = Inr (True, d')
         \<and> objects_get d' 7 Book 1 = Inl DoesNotExist)"
proof -
  have pc: "product_class the_book = Book" "product_id the_book = 1"
    "price_in_euros the_book = 1000" "weight_in_kilograms the_book = 150"
    by (simp_all add: the_book_def)
  have q: "quantity stale_line = 2" "quantity zero_line = 0"
    by (simp_all add: stale_line_def zero_line_def)
  have h1: "objects_get stocked_db 7 (product_class the_book) (product_id the_book) = Inr stale_line"
    by (simp add: objects_get_def stocked_db_def stale_line_def line_key_def the_book_def)
  have h2: "objects_get zero_db 7 (product_class the_book) (product_id the_book) = Inr zero_line"
    by (simp add: objects_get_def zero_db_def zero_line_def line_key_def the_book_def)
  have live: "products stocked_db (product_class the_book, product_id the_book) = Some the_book"
    by (simp add: stocked_db_def catalogue_def the_book_def)
  from remove_product_zero [of stocked_db 7 the_book stale_line] h1
  obtain i1 d1 where r1: "remove_product stocked_db 7 the_book 0 = Inr (True, d1)"
    and g1: "objects_get d1 7 (product_class the_book) (product_id the_book) = Inr i1"
    and q1: "quantity i1 = quantity stale_line"
    and f1: "\<forall>live. products stocked_db (product_class the_book, product_id the_book) = Some live \<longrightarrow>
               product_price i1 = price_in_euros live \<and> product_weight i1 = weight_in_kilograms live"
    by (auto simp: q)
  from f1 live have p1: "product_price i1 = 1000 \<and> product_weight i1 = 150"
    by (simp add: pc)
  from remove_product_zero [of zero_db 7 the_book zero_line] h2
  obtain d2 where r2: "remove_product zero_db 7 the_book 0 = Inr (True, d2)"
    and g2: "objects_get d2 7 (product_class the_book) (product_id the_book) = Inl DoesNotExist"
    by (auto simp: q)
  from h1 h2 r1 g1 q1 p1 r2 g2 show ?thesis
    by (simp add: pc q)
qed

text \<open>
  The claim C10 as stated, for every line that is present, fails on a line with stored
  quantity 0: the call returns \<open>True\<close> and the line is gone.
\<close>

theorem remove_product_zero_counterexample:
  "objects_get zero_db 7 Book 1 = Inr zero_line
   \<and> remove_product zero_db 7 the_book 0 = Inr (True, empty_db)
   \<and> objects_get empty_db 7 Book 1 = Inl DoesNotExist"
  by (simp add: remove_product_def objects_get_def zero_db_def zero_line_def line_key_def
      the_book_def db_delete_def empty_db_def)


section \<open>One line per product\<close>

text \<open>
  C6. Within the table no two rows share the triple (cart, content type, object id), and
  \<open>add_product\<close>, \<open>remove_product\<close> and \<open>clear_cart\<close> keep it so. Adding the same
  product twice leaves exactly one line for it, whose quantity is the sum.
\<close>

theorem unique_together_preserved:
  "unique_lines d \<longrightarrow>
     (\<forall>it' d'. add_product d c p q = Inr (it', d') \<longrightarrow> unique_lines d')
     \<and> (\<forall>b d'. remove_product d c p q = Inr (b, d') \<longrightarrow> unique_lines d')
     \<and> unique_lines (clear_cart d c)
     \<and> (\<forall>i1 d1 q2 i2 d2.
           add_product d c p q = Inr (i1, d1) \<and> add_product d1 c p q2 = Inr (i2, d2) \<longrightarrow>
             filter (\<lambda>r. line_key r = (c, product_class p, product_id p)) (items d2) = [i2]
             \<and> quantity i2 = quantity i1 + q2
             \<and> unique_lines d2)"
proof (intro impI conjI allI)
  fix it' d'
  assume "unique_lines d" and "add_product d c p q = Inr (it', d')"
  then show "unique_lines d'" by (rule unique_lines_add_product)
next
  fix b d'
  assume "unique_lines d" and "remove_product d c p q = Inr (b, d')"
  then show "unique_lines d'" by (rule unique_lines_remove_product)
next
  assume "unique_lines d"
  then show "unique_lines (clear_cart d c)"
    by (simp add: clear_cart_def unique_lines_filter)
next
  fix i1 d1 q2 i2 d2
  assume u: "unique_lines d"
    and h: "add_product d c p q = Inr (i1, d1) \<and> add_product d1 c p q2 = Inr (i2, d2)"
  from h have "objects_get d2 c (product_class p) (product_id p) = Inr i2"
    using single_line_after_add_product by blast
  then show "filter (\<lambda>r. line_key r = (c, product_class p, product_id p)) (items d2) = [i2]"
    by (simp add: objects_get_Inr_iff)
next
  fix i1 d1 q2 i2 d2
  assume u: "unique_lines d"
    and h: "add_product d c p q = Inr (i1, d1) \<and> add_product d1 c p q2 = Inr (i2, d2)"
  from h have g1: "objects_get d1 c (product_class p) (product_id p) = Inr i1"
    using single_line_after_add_product by blast
  from h have "add_product d1 c p q2 = Inr (i2, d2)" by simp
  then show "quantity i2 = quantity i1 + q2"
  proof (cases rule: add_product_Inr_cases)
    case (updated it)
    with g1 show ?thesis by simp
  next
    case created
    with g1 show ?thesis by simp
  qed
next
  fix i1 d1 q2 i2 d2
  assume u: "unique_lines d"
    and h: "add_product d c p q = Inr (i1, d1) \<and> add_product d1 c p q2 = Inr (i2, d2)"
  from u h have "unique_lines d1" using unique_lines_add_product by blast
  with h show "unique_lines d2" using unique_lines_add_product by blast
qed

theorem unique_together_preserved_witness:
  "unique_lines empty_db
   \<and> (\<exists>i1 d1 i2 d2. add_product empty_db 7 the_book 2 = Inr (i1, d1)
        \<and> add_product d1 7 the_book 3 = Inr (i2, d2)
        \<and> items d2 = [i2] \<and> quantity i2 = 5 \<and> unique_lines d2)
   \<and> unique_lines (clear_cart empty_db 7)"
proof -
  have u: "unique_lines empty_db"
    by (simp add: unique_lines_def empty_db_def)
  have a1: "add_product empty_db 7 the_book 2 =
              Inr (stale_line\<lparr>product_price := 1000, product_weight := 150\<rparr>,
                   \<lparr>products = catalogue, items = [stale_line\<lparr>product_price := 1000, product_weight := 150\<rparr>]\<rparr>)"
    by (simp add: add_product_def get_or_create_def objects_get_def save_def db_insert_def Let_def
        refresh_cached_def item_product_def empty_db_def catalogue_def the_book_def stale_line_def)
  let ?d1 = "\<lparr>products = catalogue, items = [stale_line\<lparr>product_price := 1000, product_weight := 150\<rparr>]\<rparr>"
  have a2: "add_product ?d1 7 the_book 3 =
              Inr (stale_line\<lparr>quantity := 5, product_price := 1000, product_weight := 150\<rparr>,
                   \<lparr>products = catalogue,
                    items = [stale_line\<lparr>quantity := 5, product_price := 1000, product_weight := 150\<rparr>]\<rparr>)"
    by (simp add: add_product_def get_or_create_def objects_get_def save_def db_update_def Let_def
        refresh_cached_def item_product_def catalogue_def the_book_def stale_line_def line_key_def)
  from unique_together_preserved [of empty_db 7 the_book 2] u a1 a2
  have "unique_lines \<lparr>products = catalogue,
                    items = [stale_line\<lparr>quantity := 5, product_price := 1000, product_weight := 150\<rparr>]\<rparr>"
    and "unique_lines (clear_cart empty_db 7)"
    by blast+
  with u a1 a2 show ?thesis
    by (simp add: stale_line_def)
qed

section \<open>Saving a cart item\<close>

text \<open>
  C4, as amended. A save of a cart item, update or creation, overwrites both cached
  amounts from the product object that \<^verbatim>\<open>self.product\<close> yields: for an instance that has
  not read its product, the live row of the product table; for an instance that has,
  the object it holds, whatever the table holds by now. The save of a stored item with a
  quantity that is not negative, and of a new item with a new key and triple, succeeds.
  \<open>add_product\<close> saves an instance it has just read or built: when a product is added,
  the product tables change, and the same product, still in its table, is added again,
  the cart holds one line for it, with the summed quantity and the price and weight the
  product has at the second add.
\<close>

theorem save_overwrites_from_product_read:
  "(product_cache i = Not_read
      \<and> product_tables s (content_type (item_fields i), object_id (item_fields i)) = Some live
      \<and> ShoppingCartItem_save s i = Inr (i', s') \<longrightarrow>
        product_price (item_fields i') = price_in_euros live
        \<and> product_weight (item_fields i') = weight_in_kilograms live
        \<and> quantity (item_fields i') = quantity (item_fields i)
        \<and> line_key (item_fields i') = line_key (item_fields i)
        \<and> (pk i, item_fields i') \<in> set (item_table s')
        \<and> product_cache i' = Read (Some live))
   \<and> (product_cache i = Read (Some held)
      \<and> product_class held = content_type (item_fields i)
      \<and> product_id held = object_id (item_fields i)
      \<and> ShoppingCartItem_save s i = Inr (i', s') \<longrightarrow>
        product_price (item_fields i') = price_in_euros held
        \<and> product_weight (item_fields i') = weight_in_kilograms held
        \<and> quantity (item_fields i') = quantity (item_fields i)
        \<and> line_key (item_fields i') = line_key (item_fields i)
        \<and> (pk i, item_fields i') \<in> set (item_table s'))
   \<and> (\<not> state_adding i \<and> (pk i, r) \<in> set (item_table s)
      \<and> line_key (item_fields i) = line_key r
      \<and> distinct (map (line_key \<circ> snd) (item_table s))
      \<and> 0 \<le> quantity (item_fields i) \<longrightarrow>
        (\<exists>i' s'. ShoppingCartItem_save s i = Inr (i', s')))
   \<and> (state_adding i \<and> pk i \<notin> fst ` set (item_table s)
      \<and> line_key (item_fields i) \<notin> (line_key \<circ> snd) ` set (item_table s)
      \<and> 0 \<le> quantity (item_fields i) \<longrightarrow>
        (\<exists>i' s'. ShoppingCartItem_save s i = Inr (i', s')))
   \<and> (objects_get d c (product_class p) (product_id p) = Inl DoesNotExist
        \<and> 0 \<le> q1 \<and> 0 \<le> q1 + q2
        \<and> product_class p' = product_class p \<and> product_id p' = product_id p
        \<and> P (product_class p, product_id p) = Some live \<longrightarrow>
      (\<exists>i1 d1 i2 d2. add_product d c p q1 = Inr (i1, d1)
        \<and> add_product (d1\<lparr>products := P\<rparr>) c p' q2 = Inr (i2, d2)
        \<and> filter (\<lambda>r. line_key r = (c, product_class p, product_id p)) (items d2) = [i2]
        \<and> quantity i2 = q1 + q2
        \<and> product_price i2 = price_in_euros live
        \<and> product_weight i2 = weight_in_kilograms live))"
proof -
  have c1: "(product_cache i = Not_read
      \<and> product_tables s (content_type (item_fields i), object_id (item_fields i)) = Some live
      \<and> ShoppingCartItem_save s i = Inr (i', s') \<longrightarrow>
        product_price (item_fields i') = price_in_euros live
        \<and> product_weight (item_fields i') = weight_in_kilograms live
        \<and> quantity (item_fields i') = quantity (item_fields i)
        \<and> line_key (item_fields i') = line_key (item_fields i)
        \<and> (pk i, item_fields i') \<in> set (item_table s')
        \<and> product_cache i' = Read (Some live))"
  proof (rule impI)
    assume h: "product_cache i = Not_read
        \<and> product_tables s (content_type (item_fields i), object_id (item_fields i)) = Some live
        \<and> ShoppingCartItem_save s i = Inr (i', s')"
    let ?j = "i\<lparr>product_cache := Read (Some live)\<rparr>"
    from h have "read_product s i = (Some live, ?j)"
      by (simp add: read_product_not_read)
    moreover from h have "ShoppingCartItem_save s i = Inr (i', s')" by simp
    ultimately have "product_price (item_fields i') = price_in_euros live
           \<and> product_weight (item_fields i') = weight_in_kilograms live
           \<and> quantity (item_fields i') = quantity (item_fields ?j)
           \<and> line_key (item_fields i') = line_key (item_fields ?j)
           \<and> (pk ?j, item_fields i') \<in> set (item_table s')
           \<and> product_cache i' = product_cache ?j
           \<and> product_tables s' = product_tables s"
      by (rule save_from_object)
    then show "product_price (item_fields i') = price_in_euros live
          \<and> product_weight (item_fields i') = weight_in_kilograms live
          \<and> quantity (item_fields i') = quantity (item_fields i)
          \<and> line_key (item_fields i') = line_key (item_fields i)
          \<and> (pk i, item_fields i') \<in> set (item_table s')
          \<and> product_cache i' = Read (Some live)"
      by simp
  qed
  have c2: "(product_cache i = Read (Some held)
      \<and> product_class held = content_type (item_fields i)
      \<and> product_id held = object_id (item_fields i)
      \<and> ShoppingCartItem_save s i = Inr (i', s') \<longrightarrow>
        product_price (item_fields i') = price_in_euros held
        \<and> product_weight (item_fields i') = weight_in_kilograms held
        \<and> quantity (item_fields i') = quantity (item_fields i)
        \<and> line_key (item_fields i') = line_key (item_fields i)
        \<and> (pk i, item_fields i') \<in> set (item_table s'))"
  proof (rule impI)
    assume h: "product_cache i = Read (Some held)
        \<and> product_class held = content_type (item_fields i)
        \<and> product_id held = object_id (item_fields i)
        \<and> ShoppingCartItem_save s i = Inr (i', s')"
    then have "read_product s i = (Some held, i)"
      by (simp add: read_product_held)
    moreover from h have "ShoppingCartItem_save s i = Inr (i', s')" by simp
    ultimately have "product_price (item_fields i') = price_in_euros held
           \<and> product_weight (item_fields i') = weight_in_kilograms held
           \<and> quantity (item_fields i') = quantity (item_fields i)
           \<and> line_key (item_fields i') = line_key (item_fields i)
           \<and> (pk i, item_fields i') \<in> set (item_table s')
           \<and> product_cache i' = product_cache i
           \<and> product_tables s' = product_tables s"
      by (rule save_from_object)
    then show "product_price (item_fields i') = price_in_euros held
          \<and> product_weight (item_fields i') = weight_in_kilograms held
          \<and> quantity (item_fields i') = quantity (item_fields i)
          \<and> line_key (item_fields i') = line_key (item_fields i)
          \<and> (pk i, item_fields i') \<in> set (item_table s')"
      by simp
  qed
  have c3: "(\<not> state_adding i \<and> (pk i, r) \<in> set (item_table s)
      \<and> line_key (item_fields i) = line_key r
      \<and> distinct (map (line_key \<circ> snd) (item_table s))
      \<and> 0 \<le> quantity (item_fields i) \<longrightarrow>
        (\<exists>i' s'. ShoppingCartItem_save s i = Inr (i', s')))"
  proof (rule impI)
    assume "\<not> state_adding i \<and> (pk i, r) \<in> set (item_table s)
        \<and> line_key (item_fields i) = line_key r
        \<and> distinct (map (line_key \<circ> snd) (item_table s))
        \<and> 0 \<le> quantity (item_fields i)"
    then show "\<exists>i' s'. ShoppingCartItem_save s i = Inr (i', s')"
      using save_stored_succeeds [of i r s] by blast
  qed
  have c4: "(state_adding i \<and> pk i \<notin> fst ` set (item_table s)
      \<and> line_key (item_fields i) \<notin> (line_key \<circ> snd) ` set (item_table s)
      \<and> 0 \<le> quantity (item_fields i) \<longrightarrow>
        (\<exists>i' s'. ShoppingCartItem_save s i = Inr (i', s')))"
  proof (rule impI)
    assume "state_adding i \<and> pk i \<notin> fst ` set (item_table s)
        \<and> line_key (item_fields i) \<notin> (line_key \<circ> snd) ` set (item_table s)
        \<and> 0 \<le> quantity (item_fields i)"
    then show "\<exists>i' s'. ShoppingCartItem_save s i = Inr (i', s')"
      using save_new_succeeds [of i s] by blast
  qed
  have c5: "(objects_get d c (product_class p) (product_id p) = Inl DoesNotExist
        \<and> 0 \<le> q1 \<and> 0 \<le> q1 + q2
        \<and> product_class p' = product_class p \<and> product_id p' = product_id p
        \<and> P (product_class p, product_id p) = Some live \<longrightarrow>
      (\<exists>i1 d1 i2 d2. add_product d c p q1 = Inr (i1, d1)
        \<and> add_product (d1\<lparr>products := P\<rparr>) c p' q2 = Inr (i2, d2)
        \<and> filter (\<lambda>r. line_key r = (c, product_class p, product_id p)) (items d2) = [i2]
        \<and> quantity i2 = q1 + q2
        \<and> product_price i2 = price_in_euros live
        \<and> product_weight i2 = weight_in_kilograms live))"
  proof (rule impI)
    assume "objects_get d c (product_class p) (product_id p) = Inl DoesNotExist
          \<and> 0 \<le> q1 \<and> 0 \<le> q1 + q2
          \<and> product_class p' = product_class p \<and> product_id p' = product_id p
          \<and> P (product_class p, product_id p) = Some live"
    then show "\<exists>i1 d1 i2 d2. add_product d c p q1 = Inr (i1, d1)
          \<and> add_product (d1\<lparr>products := P\<rparr>) c p' q2 = Inr (i2, d2)
          \<and> filter (\<lambda>r. line_key r = (c, product_class p, product_id p)) (items d2) = [i2]
          \<and> quantity i2 = q1 + q2
          \<and> product_price i2 = price_in_euros live
          \<and> product_weight i2 = weight_in_kilograms live"
      using add_twice_current_price [of d c p q1 q2 p' P live] by blast
  qed
  show ?thesis
    by (intro conjI) (rule c1, rule c2, rule c3, rule c4, rule c5)
qed


theorem save_overwrites_from_product_read_witness:
  "(product_cache (instance_of (41, stale_line)) = Not_read
      \<and> product_tables stocked_store (Book, 1) = Some the_book
      \<and> ShoppingCartItem_save stocked_store (instance_of (41, stale_line))
          = Inr (held_instance\<lparr>item_fields := current_line\<rparr>,
                 stocked_store\<lparr>item_table := [(41, current_line)]\<rparr>))
   \<and> product_price stale_line = 900 \<and> product_price current_line = 1000
   \<and> (product_cache held_instance = Read (Some the_book)
      \<and> product_tables repriced_store (Book, 1) = Some dearer_book
      \<and> ShoppingCartItem_save repriced_store held_instance
          = Inr (held_instance\<lparr>item_fields := current_line\<rparr>,
                 repriced_store\<lparr>item_table := [(41, current_line)]\<rparr>))
   \<and> (\<not> state_adding held_instance
      \<and> (pk held_instance, stale_line) \<in> set (item_table repriced_store)
      \<and> 0 \<le> quantity (item_fields held_instance)
      \<and> (\<exists>i' s'. ShoppingCartItem_save repriced_store held_instance = Inr (i', s')))
   \<and> (state_adding new_instance \<and> pk new_instance \<notin> fst ` set (item_table orphan_store)
      \<and> (\<exists>i' s'. ShoppingCartItem_save orphan_store new_instance = Inr (i', s')))
   \<and> (objects_get empty_db 7 Book 1 = Inl DoesNotExist
        \<and> dearer_catalogue (Book, 1) = Some dearer_book)
   \<and> (\<exists>i1 d1 i2 d2. add_product empty_db 7 the_book 2 = Inr (i1, d1)
        \<and> add_product (d1\<lparr>products := dearer_catalogue\<rparr>) 7 the_book 3 = Inr (i2, d2)
        \<and> filter (\<lambda>r. line_key r = (7, Book, 1)) (items d2) = [i2]
        \<and> quantity i2 = 5 \<and> product_price i2 = 1200 \<and> product_weight i2 = 150)"
proof -
  have pc: "product_class the_book = Book" "product_id the_book = 1"
    "price_in_euros the_book = 1000" "weight_in_kilograms the_book = 150"
    "price_in_euros dearer_book = 1200" "weight_in_kilograms dearer_book = 150"
    by (simp_all add: the_book_def dearer_book_def)
  have fl: "content_type stale_line = Book" "object_id stale_line = 1" "quantity stale_line = 2"
    "product_price stale_line = 900" "product_price current_line = 1000"
    "product_weight current_line = 150"
    by (simp_all add: stale_line_def current_line_def)
  have t1: "product_tables stocked_store (Book, 1) = Some the_book"
    and t2: "product_tables repriced_store (Book, 1) = Some dearer_book"
    by (simp_all add: stocked_store_def repriced_store_def catalogue_def dearer_catalogue_def)
  have r1: "ShoppingCartItem_save stocked_store (instance_of (41, stale_line))
          = Inr (held_instance\<lparr>item_fields := current_line\<rparr>,
                 stocked_store\<lparr>item_table := [(41, current_line)]\<rparr>)"
    by (simp add: ShoppingCartItem_save_def read_product_def Model_save_def Let_def
        instance_of_def held_instance_def stocked_store_def catalogue_def the_book_def
        stale_line_def current_line_def line_key_def)
  have r2: "ShoppingCartItem_save repriced_store held_instance
          = Inr (held_instance\<lparr>item_fields := current_line\<rparr>,
                 repriced_store\<lparr>item_table := [(41, current_line)]\<rparr>)"
    by (simp add: ShoppingCartItem_save_def read_product_def Model_save_def Let_def
        held_instance_def repriced_store_def the_book_def
        stale_line_def current_line_def line_key_def)
  have c1: "product_cache (instance_of (41, stale_line)) = Not_read"
    and c2: "product_cache held_instance = Read (Some the_book)"
    by (simp_all add: instance_of_def held_instance_def)
  have f1: "item_fields (instance_of (41, stale_line)) = stale_line"
    and f2: "item_fields held_instance = stale_line"
    by (simp_all add: instance_of_def held_instance_def)
  have n: "state_adding new_instance" "pk new_instance \<notin> fst ` set (item_table orphan_store)"
    "line_key (item_fields new_instance) \<notin> (line_key \<circ> snd) ` set (item_table orphan_store)"
    "0 \<le> quantity (item_fields new_instance)"
    by (simp_all add: new_instance_def orphan_store_def orphan_line_def stale_line_def line_key_def)
  have h3: "objects_get empty_db 7 (product_class the_book) (product_id the_book) = Inl DoesNotExist"
    by (simp add: objects_get_def empty_db_def)
  have l3: "dearer_catalogue (product_class the_book, product_id the_book) = Some dearer_book"
    by (simp add: dearer_catalogue_def the_book_def)
  from save_overwrites_from_product_read
    [where i = "instance_of (41, stale_line)" and s = stocked_store and live = the_book
       and i' = "held_instance\<lparr>item_fields := current_line\<rparr>"
       and s' = "stocked_store\<lparr>item_table := [(41, current_line)]\<rparr>"]
    c1 t1 r1
  have a: "product_price (item_fields (held_instance\<lparr>item_fields := current_line\<rparr>)) = 1000"
    by (simp add: f1 fl pc)
  from save_overwrites_from_product_read
    [where i = held_instance and s = repriced_store and held = the_book
       and i' = "held_instance\<lparr>item_fields := current_line\<rparr>"
       and s' = "repriced_store\<lparr>item_table := [(41, current_line)]\<rparr>"]
    c2 r2
  have b: "product_price (item_fields (held_instance\<lparr>item_fields := current_line\<rparr>)) = 1000"
    by (simp add: f2 fl pc)
  have st: "\<not> state_adding held_instance"
    "(pk held_instance, stale_line) \<in> set (item_table repriced_store)"
    "line_key (item_fields held_instance) = line_key stale_line"
    "distinct (map (line_key \<circ> snd) (item_table repriced_store))"
    "0 \<le> quantity (item_fields held_instance)"
    by (simp_all add: held_instance_def repriced_store_def stale_line_def)
  from save_overwrites_from_product_read
    [where i = held_instance and s = repriced_store and r = stale_line] st
  have e: "\<exists>i' s'. ShoppingCartItem_save repriced_store held_instance = Inr (i', s')"
    by blast
  from save_overwrites_from_product_read [where i = new_instance and s = orphan_store] n
  have c: "\<exists>i' s'. ShoppingCartItem_save orphan_store new_instance = Inr (i', s')"
    by blast
  from save_overwrites_from_product_read
    [where d = empty_db and c = 7 and p = the_book and ?q1.0 = 2 and ?q2.0 = 3 and p' = the_book
       and P = dearer_catalogue and live = dearer_book] h3 l3
  have d: "\<exists>i1 d1 i2 d2. add_product empty_db 7 the_book 2 = Inr (i1, d1)
        \<and> add_product (d1\<lparr>products := dearer_catalogue\<rparr>) 7 the_book 3 = Inr (i2, d2)
        \<and> filter (\<lambda>r. line_key r = (7, Book, 1)) (items d2) = [i2]
        \<and> quantity i2 = 5 \<and> product_price i2 = 1200 \<and> product_weight i2 = 150"
    unfolding pc by simp
  from c1 c2 t1 t2 r1 r2 st e n c h3 l3 d show ?thesis
    unfolding pc fl by blast
qed

text \<open>
  The claim C4 as stated, an overwrite from the live product on every save, fails twice.
  The instance that read the book at 10.00 euros saves 10.00 euros after the book was
  repriced to 12.00. And an item whose product is gone from its table is saved with the
  amounts cached before, also when the same product instance, now priced 7.00, is added
  a second time.
\<close>

theorem save_overwrites_counterexample:
  "product_tables repriced_store (Book, 1) = Some dearer_book
   \<and> price_in_euros dearer_book = 1200
   \<and> ShoppingCartItem_save repriced_store held_instance
       = Inr (held_instance\<lparr>item_fields := current_line\<rparr>,
              repriced_store\<lparr>item_table := [(41, current_line)]\<rparr>)
   \<and> product_price current_line = 1000
   \<and> product_tables orphan_store (MusicAlbum, 5) = None
   \<and> ShoppingCartItem_save orphan_store (instance_of (42, orphan_line))
       = Inr ((instance_of (42, orphan_line))\<lparr>product_cache := Read None\<rparr>, orphan_store)
   \<and> add_product orphan_db 9 the_album 1
       = Inr (orphan_line\<lparr>quantity := 2\<rparr>, orphan_db\<lparr>items := [orphan_line\<lparr>quantity := 2\<rparr>]\<rparr>)
   \<and> product_price (orphan_line\<lparr>quantity := 2\<rparr>) = 500
   \<and> price_in_euros the_album = 700"
  by (simp add: ShoppingCartItem_save_def read_product_def Model_save_def Let_def
      add_product_def get_or_create_def objects_get_def save_def db_update_def
      refresh_cached_def item_product_def instance_of_def
      held_instance_def repriced_store_def orphan_store_def orphan_db_def
      dearer_catalogue_def catalogue_def dearer_book_def the_book_def the_album_def
      stale_line_def current_line_def orphan_line_def line_key_def)




section \<open>The quantity of a stored line\<close>

text \<open>
  C5, as amended. That every stored line has quantity at least 1 is preserved by
  \<open>remove_product\<close> for every requested quantity and by \<open>clear_cart\<close>, and by
  \<open>add_product\<close> when the quantity added is at least 1. What every operation preserves for
  every requested quantity is the check of the column, quantity at least 0. A line
  whose remaining quantity would be 0 or less is deleted by \<open>remove_product\<close>.
\<close>

theorem quantity_invariant:
  "(positive_quantities d \<longrightarrow>
      (\<forall>it' d'. 1 \<le> q \<and> add_product d c p q = Inr (it', d') \<longrightarrow> positive_quantities d')
      \<and> (\<forall>b d'. remove_product d c p q = Inr (b, d') \<longrightarrow> positive_quantities d')
      \<and> positive_quantities (clear_cart d c))
   \<and> (stored_quantities_checked d \<longrightarrow>
      (\<forall>it' d'. add_product d c p q = Inr (it', d') \<longrightarrow> stored_quantities_checked d')
      \<and> (\<forall>b d'. remove_product d c p q = Inr (b, d') \<longrightarrow> stored_quantities_checked d')
      \<and> stored_quantities_checked (clear_cart d c))
   \<and> (\<forall>it. objects_get d c (product_class p) (product_id p) = Inr it \<and> quantity it - q \<le> 0 \<longrightarrow>
        (\<exists>d'. remove_product d c p q = Inr (True, d')
           \<and> objects_get d' c (product_class p) (product_id p) = Inl DoesNotExist))"
proof (intro conjI impI allI)
  fix it' d'
  assume "positive_quantities d" and "1 \<le> q \<and> add_product d c p q = Inr (it', d')"
  then show "positive_quantities d'"
    using positive_quantities_add_product by blast
next
  fix b d'
  assume "positive_quantities d" and "remove_product d c p q = Inr (b, d')"
  then show "positive_quantities d'"
    by (rule positive_quantities_remove_product)
next
  assume "positive_quantities d"
  then show "positive_quantities (clear_cart d c)"
    by (simp add: positive_quantities_def clear_cart_def list_all_filter)
next
  fix it' d'
  assume "stored_quantities_checked d" and "add_product d c p q = Inr (it', d')"
  then show "stored_quantities_checked d'"
    by (rule checked_add_product)
next
  fix b d'
  assume "stored_quantities_checked d" and "remove_product d c p q = Inr (b, d')"
  then show "stored_quantities_checked d'"
    by (rule checked_remove_product)
next
  assume "stored_quantities_checked d"
  then show "stored_quantities_checked (clear_cart d c)"
    by (simp add: stored_quantities_checked_def clear_cart_def list_all_filter)
next
  fix it
  assume h: "objects_get d c (product_class p) (product_id p) = Inr it \<and> quantity it - q \<le> 0"
  then have k: "line_key it = (c, product_class p, product_id p)"
    using objects_get_Inr_key by blast
  from h have "remove_product d c p q = Inr (True, db_delete d it)"
    by (simp add: remove_product_all)
  moreover have "objects_get (db_delete d it) c (product_class p) (product_id p) = Inl DoesNotExist"
    using k by (simp add: objects_get_after_delete)
  ultimately show "\<exists>d'. remove_product d c p q = Inr (True, d')
           \<and> objects_get d' c (product_class p) (product_id p) = Inl DoesNotExist"
    by blast
qed

theorem quantity_invariant_witness:
  "positive_quantities stocked_db \<and> stored_quantities_checked stocked_db
   \<and> (\<exists>it' d'. (1::int) \<le> 3 \<and> add_product stocked_db 7 the_book 3 = Inr (it', d')
         \<and> positive_quantities d' \<and> stored_quantities_checked d')
   \<and> (\<exists>d'. remove_product stocked_db 7 the_book 1 = Inr (True, d')
         \<and> positive_quantities d' \<and> stored_quantities_checked d')
   \<and> positive_quantities (clear_cart stocked_db 7)
   \<and> objects_get stocked_db 7 Book 1 = Inr stale_line \<and> quantity stale_line - 2 \<le> 0
   \<and> (\<exists>d'. remove_product stocked_db 7 the_book 2 = Inr (True, d')
         \<and> objects_get d' 7 Book 1 = Inl DoesNotExist)"
proof -
  have pc: "product_class the_book = Book" "product_id the_book = 1"
    by (simp_all add: the_book_def)
  have pos: "positive_quantities stocked_db" and chk: "stored_quantities_checked stocked_db"
    by (simp_all add: positive_quantities_def stored_quantities_checked_def stocked_db_def stale_line_def)
  have g: "objects_get stocked_db 7 (product_class the_book) (product_id the_book) = Inr stale_line"
    by (simp add: objects_get_def stocked_db_def stale_line_def line_key_def the_book_def)
  have q: "quantity stale_line = 2" by (simp add: stale_line_def)
  from g have "\<exists>it' d'. add_product stocked_db 7 the_book 3 = Inr (it', d')"
    by (simp add: add_product_present q)
  then obtain i1 d1 where a: "add_product stocked_db 7 the_book 3 = Inr (i1, d1)" by blast
  from g have "\<exists>d'. remove_product stocked_db 7 the_book 1 = Inr (True, d')"
    by (simp add: remove_product_some q)
  then obtain d2 where r: "remove_product stocked_db 7 the_book 1 = Inr (True, d2)" by blast
  from quantity_invariant [of stocked_db 3 7 the_book] pos chk a
  have a': "positive_quantities d1 \<and> stored_quantities_checked d1" by simp
  from quantity_invariant [of stocked_db 1 7 the_book] pos chk r
  have r': "positive_quantities d2 \<and> stored_quantities_checked d2" by blast
  from quantity_invariant [of stocked_db 3 7 the_book] pos
  have c': "positive_quantities (clear_cart stocked_db 7)" by simp
  from quantity_invariant [of stocked_db 2 7 the_book] g
  have z: "\<exists>d'. remove_product stocked_db 7 the_book 2 = Inr (True, d')
         \<and> objects_get d' 7 Book 1 = Inl DoesNotExist"
    by (simp add: q pc)
  from pos chk a a' r r' c' g z show ?thesis
    by (auto simp: pc q)
qed

text \<open>
  The claim C5 as stated fails: \<open>add_product\<close> does not look at the quantity it is given,
  and with quantity 0 on an empty cart it stores a line whose quantity is 0.
\<close>

theorem quantity_invariant_counterexample:
  "positive_quantities empty_db
   \<and> add_product empty_db 7 the_book 0 = Inr (zero_line, zero_db)
   \<and> \<not> positive_quantities zero_db"
  by (simp add: positive_quantities_def add_product_def get_or_create_def objects_get_def
      save_def db_insert_def Let_def refresh_cached_def item_product_def empty_db_def
      catalogue_def the_book_def zero_line_def zero_db_def)

section \<open>Quantities below 1 given to \<open>add_product\<close>\<close>

text \<open>
  C7, as amended. \<open>add_product\<close> has no check of its own on the quantity and raises no
  error for a quantity below 1. A quantity is refused only by the check of the quantity
  column, with \<open>IntegrityError\<close> and no row created or changed: on an absent line when
  it is negative, on a present line when the sum with the stored quantity is negative.
  The quantity 0 is accepted: on an absent line it creates a line with quantity 0, on a
  present line it saves the line again. A negative quantity whose sum with the stored
  quantity is not negative is added all the same, which lowers the line. The \<open>add-product\<close> action changes nothing and
  answers 400 with the errors of its serializer when the serializer rejects the request,
  and lets an exception of \<open>add_product\<close> through.
\<close>

theorem add_product_unvalidated:
  "(objects_get d c (product_class p) (product_id p) = Inl DoesNotExist \<and> q < 0 \<longrightarrow>
      add_product d c p q = Inl IntegrityError)
   \<and> (objects_get d c (product_class p) (product_id p) = Inr it \<and> quantity it + q < 0 \<longrightarrow>
      add_product d c p q = Inl IntegrityError)
   \<and> (objects_get d c (product_class p) (product_id p) = Inl DoesNotExist \<longrightarrow>
      (\<exists>it' d'. add_product d c p 0 = Inr (it', d')
         \<and> quantity it' = 0 \<and> items d' = items d @ [it']))
   \<and> (objects_get d c (product_class p) (product_id p) = Inr it \<and> 0 \<le> quantity it \<longrightarrow>
      (\<exists>it' d'. add_product d c p 0 = Inr (it', d')
         \<and> quantity it' = quantity it
         \<and> objects_get d' c (product_class p) (product_id p) = Inr it'))
   \<and> (objects_get d c (product_class p) (product_id p) = Inr it
        \<and> q < 1 \<and> 0 \<le> quantity it + q \<longrightarrow>
      (\<exists>it' d'. add_product d c p q = Inr (it', d')
         \<and> quantity it' = quantity it + q
         \<and> objects_get d' c (product_class p) (product_id p) = Inr it'))
   \<and> view_add_product d c (Invalid (errs :: 'e)) = Inr (HTTP_400_BAD_REQUEST errs, d)
   \<and> (\<forall>e. add_product d c p q = Inl e \<longrightarrow>
        view_add_product d c (Valid p q :: 'e validation) = Inl e)"
proof (intro conjI impI allI)
  assume "objects_get d c (product_class p) (product_id p) = Inl DoesNotExist \<and> q < 0"
  then show "add_product d c p q = Inl IntegrityError"
    by (simp add: add_product_absent_negative)
next
  assume "objects_get d c (product_class p) (product_id p) = Inr it \<and> quantity it + q < 0"
  then show "add_product d c p q = Inl IntegrityError"
    using add_product_present_negative by blast
next
  assume h: "objects_get d c (product_class p) (product_id p) = Inl DoesNotExist"
  let ?it = "refresh_cached d \<lparr>cart = c, quantity = 0, content_type = product_class p,
                         object_id = product_id p, product_price = price_in_euros p,
                         product_weight = weight_in_kilograms p\<rparr>"
  from h have "add_product d c p 0 = Inr (?it, d\<lparr>items := items d @ [?it]\<rparr>)"
    by (simp add: add_product_absent Let_def)
  then have "add_product d c p 0 = Inr (?it, d\<lparr>items := items d @ [?it]\<rparr>)
      \<and> quantity ?it = 0 \<and> items (d\<lparr>items := items d @ [?it]\<rparr>) = items d @ [?it]"
    by simp
  then show "\<exists>it' d'. add_product d c p 0 = Inr (it', d')
         \<and> quantity it' = 0 \<and> items d' = items d @ [it']"
    by blast
next
  assume h: "objects_get d c (product_class p) (product_id p) = Inr it \<and> 0 \<le> quantity it"
  then have "0 \<le> quantity it + 0" by simp
  with h obtain it' d' where r: "add_product d c p 0 = Inr (it', d')"
    and i: "it' = refresh_cached d (it\<lparr>quantity := quantity it + 0\<rparr>)"
    using add_product_present [of d c p it 0] by blast
  from r have "objects_get d' c (product_class p) (product_id p) = Inr it'"
    by (rule single_line_after_add_product)
  moreover from i have "quantity it' = quantity it" by simp
  ultimately show "\<exists>it' d'. add_product d c p 0 = Inr (it', d')
         \<and> quantity it' = quantity it
         \<and> objects_get d' c (product_class p) (product_id p) = Inr it'"
    using r by blast
next
  assume h: "objects_get d c (product_class p) (product_id p) = Inr it
        \<and> q < 1 \<and> 0 \<le> quantity it + q"
  then obtain it' d' where r: "add_product d c p q = Inr (it', d')"
    and i: "it' = refresh_cached d (it\<lparr>quantity := quantity it + q\<rparr>)"
    using add_product_present [of d c p it q] by blast
  from r have "objects_get d' c (product_class p) (product_id p) = Inr it'"
    by (rule single_line_after_add_product)
  moreover from i have "quantity it' = quantity it + q" by simp
  ultimately show "\<exists>it' d'. add_product d c p q = Inr (it', d')
         \<and> quantity it' = quantity it + q
         \<and> objects_get d' c (product_class p) (product_id p) = Inr it'"
    using r by blast
next
  show "view_add_product d c (Invalid errs) = Inr (HTTP_400_BAD_REQUEST errs, d)"
    by (simp add: view_add_product_def)
next
  fix e
  assume "add_product d c p q = Inl e"
  then show "view_add_product d c (Valid p q :: 'e validation) = Inl e"
    by (simp add: view_add_product_def)
qed

theorem add_product_unvalidated_witness:
  "(objects_get empty_db 7 Book 1 = Inl DoesNotExist \<and> (-1::int) < 0)
   \<and> add_product empty_db 7 the_book (-1) = Inl IntegrityError
   \<and> (objects_get stocked_db 7 Book 1 = Inr stale_line \<and> quantity stale_line + (-3) < 0)
   \<and> add_product stocked_db 7 the_book (-3) = Inl IntegrityError
   \<and> (\<exists>it' d'. add_product empty_db 7 the_book 0 = Inr (it', d')
         \<and> quantity it' = 0 \<and> items d' = [it'])
   \<and> (\<exists>it' d'. add_product stocked_db 7 the_book 0 = Inr (it', d') \<and> quantity it' = 2)
   \<and> ((-1::int) < 1 \<and> 0 \<le> quantity stale_line + (-1))
   \<and> (\<exists>it' d'. add_product stocked_db 7 the_book (-1) = Inr (it', d') \<and> quantity it' = 1)
   \<and> view_add_product empty_db 7 (Valid the_book (-1)) = (Inl IntegrityError :: error + (unit response \<times> db))"
proof -
  have pc: "product_class the_book = Book" "product_id the_book = 1"
    by (simp_all add: the_book_def)
  have e: "items empty_db = []" by (simp add: empty_db_def)
  have q: "quantity stale_line = 2" by (simp add: stale_line_def)
  have h0: "objects_get empty_db 7 (product_class the_book) (product_id the_book) = Inl DoesNotExist"
    by (simp add: objects_get_def empty_db_def)
  have h1: "objects_get stocked_db 7 (product_class the_book) (product_id the_book) = Inr stale_line"
    by (simp add: objects_get_def stocked_db_def stale_line_def line_key_def the_book_def)
  from add_product_unvalidated [of empty_db 7 the_book "-1" stale_line "()"] h0
  have a: "add_product empty_db 7 the_book (-1) = Inl IntegrityError"
    and b: "\<exists>it' d'. add_product empty_db 7 the_book 0 = Inr (it', d')
         \<and> quantity it' = 0 \<and> items d' = [it']"
    by (simp_all add: e)
  from add_product_unvalidated [of stocked_db 7 the_book "-3" stale_line "()"] h1
  have c: "add_product stocked_db 7 the_book (-3) = Inl IntegrityError"
    and d: "\<exists>it' d'. add_product stocked_db 7 the_book 0 = Inr (it', d') \<and> quantity it' = 2"
    by (auto simp: q)
  from add_product_unvalidated [of stocked_db 7 the_book "-1" stale_line "()"] h1
  have l: "\<exists>it' d'. add_product stocked_db 7 the_book (-1) = Inr (it', d') \<and> quantity it' = 1"
    by (auto simp: q)
  from add_product_unvalidated [of empty_db 7 the_book "-1" stale_line "()"] a
  have v: "view_add_product empty_db 7 (Valid the_book (-1)) = (Inl IntegrityError :: error + (unit response \<times> db))"
    by blast
  from h0 h1 a b c d l v show ?thesis
    by (simp add: pc q)
qed

text \<open>
  The claim C7 as stated fails: given the quantity 0 on an empty cart, \<open>add_product\<close>
  returns a new item and the table holds it; given the quantity -1 on a line of two
  copies, it returns the line with one copy and the table holds that.
\<close>

theorem add_product_unvalidated_counterexample:
  "add_product empty_db 7 the_book 0 = Inr (zero_line, zero_db)
   \<and> items empty_db = [] \<and> items zero_db = [zero_line]
   \<and> add_product stocked_db 7 the_book (-1)
       = Inr (reduced_line, \<lparr>products = catalogue, items = [reduced_line]\<rparr>)
   \<and> items stocked_db = [stale_line] \<and> quantity stale_line = 2 \<and> quantity reduced_line = 1"
  by (simp add: add_product_def get_or_create_def objects_get_def save_def db_insert_def
      db_update_def Let_def refresh_cached_def item_product_def empty_db_def stocked_db_def
      catalogue_def the_book_def zero_line_def zero_db_def stale_line_def reduced_line_def
      line_key_def)

section \<open>Clearing a cart\<close>

text \<open>
  C8. \<open>clear_cart\<close> leaves the cart without items and leaves the items of every other
  cart, and the product tables, as they were; clearing twice is clearing once; and the
  totals of a cleared cart are price 0, weight 0 and 0 items.
\<close>

theorem clear_cart_totals:
  "cart_items (clear_cart d c) c = []
   \<and> (\<forall>c'. c' \<noteq> c \<longrightarrow> cart_items (clear_cart d c) c' = cart_items d c')
   \<and> length (items (clear_cart d c)) + length (cart_items d c) = length (items d)
   \<and> products (clear_cart d c) = products d
   \<and> clear_cart (clear_cart d c) c = clear_cart d c
   \<and> get_totals (clear_cart d c) c = \<lparr>total_price = 0, total_weight = 0, item_count = 0\<rparr>"
proof (intro conjI allI impI)
  show e: "cart_items (clear_cart d c) c = []"
    by (simp add: cart_items_def clear_cart_def filter_empty_conv)
  then show "get_totals (clear_cart d c) c = \<lparr>total_price = 0, total_weight = 0, item_count = 0\<rparr>"
    by (simp add: get_totals_def calculate_total_price_def calculate_total_weight_def
        aggregate_Sum_def or_0_def)
next
  fix c'
  assume "c' \<noteq> c"
  then have "filter (\<lambda>it. cart it = c') (filter (\<lambda>it. cart it \<noteq> c) (items d))
               = filter (\<lambda>it. cart it = c') (items d)"
    by (induction "items d" arbitrary: d) (auto intro: filter_cong)
  then show "cart_items (clear_cart d c) c' = cart_items d c'"
    by (simp add: cart_items_def clear_cart_def del: filter_filter)
next
  have "length (filter (\<lambda>it. cart it = c) (items d))
          + length (filter (\<lambda>it. \<not> cart it = c) (items d)) = length (items d)"
    by (rule sum_length_filter_compl)
  then show "length (items (clear_cart d c)) + length (cart_items d c) = length (items d)"
    by (simp add: cart_items_def clear_cart_def)
next
  show "products (clear_cart d c) = products d"
    by (simp add: clear_cart_def)
next
  show "clear_cart (clear_cart d c) c = clear_cart d c"
    by (simp add: clear_cart_def)
qed

theorem clear_cart_totals_witness:
  "(8::nat) \<noteq> 7
   \<and> cart_items (clear_cart stocked_db 8) 7 = [stale_line]
   \<and> cart_items (clear_cart stocked_db 7) 7 = []
   \<and> get_totals stocked_db 7 = \<lparr>total_price = 1800, total_weight = 280, item_count = 1\<rparr>
   \<and> get_totals (clear_cart stocked_db 7) 7 = \<lparr>total_price = 0, total_weight = 0, item_count = 0\<rparr>"
proof -
  have s: "cart_items stocked_db 7 = [stale_line]"
    by (simp add: cart_items_def stocked_db_def stale_line_def)
  have t: "get_totals stocked_db 7 = \<lparr>total_price = 1800, total_weight = 280, item_count = 1\<rparr>"
    by (simp add: get_totals_def calculate_total_price_def calculate_total_weight_def
        aggregate_Sum_def or_0_def s) (simp add: stale_line_def)
  have n: "(7::nat) \<noteq> 8" by simp
  from clear_cart_totals [of stocked_db 8] n
  have a: "cart_items (clear_cart stocked_db 8) 7 = cart_items stocked_db 7" by blast
  from clear_cart_totals [of stocked_db 7]
  have b: "cart_items (clear_cart stocked_db 7) 7 = []"
    and c: "get_totals (clear_cart stocked_db 7) 7 = \<lparr>total_price = 0, total_weight = 0, item_count = 0\<rparr>"
    by blast+
  from a b c s t show ?thesis by simp
qed

end
